theory Spec2Isabelle
  imports Complex_Main "HOL-Library.Sublist"
begin

section \<open>Python values used by the action pipeline\<close>

subsection \<open>Strings\<close>

text \<open>
  A Python \<open>str\<close> is modelled as a \<open>char list\<close> in which every \<open>char\<close> is one code point
  below 256 (the Latin-1 range, which holds every letter of the keyword tables of
  \<open>game/actions.py\<close>, including the German umlauts).  So \<open>length\<close> counts code points, as
  Python's \<open>len\<close> does.  Code points above 255 are outside the model.

  \<open>str.lower()\<close> on this range maps \<open>A..Z\<close> and the Latin-1 capitals \<open>0xC0..0xDE\<close> (without
  the multiplication sign \<open>0xD7\<close>) to the code point 32 above and leaves every other
  code point alone.
\<close>

definition lower_char :: "char \<Rightarrow> char" where
  "lower_char c =
     (let n = (of_char c :: nat)
      in if (65 \<le> n \<and> n \<le> 90) \<or> (192 \<le> n \<and> n \<le> 222 \<and> n \<noteq> 215)
         then char_of (n + 32) else c)"

definition lower :: "string \<Rightarrow> string" where
  "lower s = map lower_char s"

text \<open>\<open>a in b\<close> on two strings: \<open>a\<close> occurs in \<open>b\<close> as a contiguous substring.\<close>

fun str_in :: "string \<Rightarrow> string \<Rightarrow> bool" where
  "str_in a [] = (a = [])"
| "str_in a (c # cs) = (prefix a (c # cs) \<or> str_in a cs)"

text \<open>\<open>any(keyword in text for keyword in keywords)\<close>.\<close>

definition any_keyword_in :: "string list \<Rightarrow> string \<Rightarrow> bool" where
  "any_keyword_in keywords text = list_ex (\<lambda>keyword. str_in keyword text) keywords"

text \<open>
  The whitespace of \<open>str.strip()\<close>, \<open>str.isspace()\<close> and the regular expression class
  \<open>\s\<close> on the modelled range: TAB, LF, VT, FF, CR, the separators \<open>0x1C..0x1F\<close>, the
  space, NEL \<open>0x85\<close> and the no-break space \<open>0xA0\<close>.
\<close>

definition is_space :: "char \<Rightarrow> bool" where
  "is_space c =
     (let n = (of_char c :: nat)
      in (9 \<le> n \<and> n \<le> 13) \<or> (28 \<le> n \<and> n \<le> 32) \<or> n = 133 \<or> n = 160)"

definition strip :: "string \<Rightarrow> string" where
  "strip s = rev (dropWhile is_space (rev (dropWhile is_space s)))"

text \<open>
  \<open>re.split(r'[...]+', s)\<close> for a character class \<open>sep\<close>: the pieces between the maximal
  runs of separator characters, with the empty pieces Python returns at a leading or a
  trailing run.  \<open>insep\<close> tells that the previous character was a separator, \<open>cur\<close> is
  the piece read so far, reversed.
\<close>

fun split_run :: "(char \<Rightarrow> bool) \<Rightarrow> bool \<Rightarrow> string \<Rightarrow> string \<Rightarrow> string list" where
  "split_run sep insep cur [] = [rev cur]"
| "split_run sep insep cur (c # cs) =
     (if sep c
      then (if insep then split_run sep True [] cs else rev cur # split_run sep True [] cs)
      else split_run sep False (c # cur) cs)"

definition re_split :: "(char \<Rightarrow> bool) \<Rightarrow> string \<Rightarrow> string list" where
  "re_split sep s = split_run sep False [] s"

text \<open>Python's \<open>int(x)\<close> on a float: truncation towards zero.\<close>

definition py_int :: "real \<Rightarrow> int" where
  "py_int x = (if 0 \<le> x then \<lfloor>x\<rfloor> else \<lceil>x\<rceil>)"

subsection \<open>The random source\<close>

text \<open>
  The module-wide generator of \<open>random\<close> is the injected sequence \<open>rng\<close> (element \<open>g 0\<close>
  is the next one): every call of \<open>random.randint\<close> or \<open>random.random\<close> takes the next
  element and leaves the rest (\<open>advance\<close>).
  \<open>randint lo hi\<close> maps the element into \<open>lo..hi\<close> (both ends included, as in Python).
  Floats are modelled as reals.
\<close>

type_synonym rng = "nat \<Rightarrow> nat"

definition advance :: "rng \<Rightarrow> rng" where
  "advance g = (\<lambda>n. g (Suc n))"

definition randint :: "int \<Rightarrow> int \<Rightarrow> rng \<Rightarrow> int \<times> rng" where
  "randint lo hi g = (lo + int (g 0 mod nat (hi - lo + 1)), advance g)"

text \<open>The source that gives the same element forever.\<close>

definition const_rng :: "nat \<Rightarrow> rng" where
  "const_rng k = (\<lambda>n. k)"

section \<open>Dice and attribute checks (\<open>DiceRoller\<close>)\<close>

definition roll :: "int \<Rightarrow> rng \<Rightarrow> int \<times> rng" where
  "roll sides g = randint 1 sides g"

definition d20 :: "rng \<Rightarrow> int \<times> rng" where
  "d20 g = roll 20 g"

text \<open>
  \<open>attribute_check(attribute_value, difficulty, advantage, disadvantage, gift_bonus)\<close>
  returns \<open>(success, roll, total)\<close> and the random source after its one or two rolls.
  \<open>div\<close> on \<open>int\<close> is floor division, as Python's \<open>//\<close>.
\<close>

definition attribute_check ::
  "int \<Rightarrow> int \<Rightarrow> bool \<Rightarrow> bool \<Rightarrow> int \<Rightarrow> rng \<Rightarrow> (bool \<times> int \<times> int) \<times> rng" where
  "attribute_check attribute_value difficulty advantage disadvantage gift_bonus g =
     (let (roll1, g1) = d20 g;
          (roll, g2) =
            (if advantage \<or> disadvantage
             then (let (roll2, g') = d20 g1
                   in (if advantage then max roll1 roll2 else min roll1 roll2, g'))
             else (roll1, g1));
          modifier = (attribute_value - 10) div 2;
          total = roll + modifier + gift_bonus;
          success = (total \<ge> difficulty)
      in ((success, roll, total), g2))"

section \<open>The data model\<close>

text \<open>
  The classes of \<open>models/\<close> as records, with the fields the action pipeline reads or
  writes.  (Item statistics and special effects, NPC memory, doors, quests and positions
  are used by combat, trading and movement only and are left out.)
\<close>

datatype item_type = WEAPON | ARMOR | RING | HEAD | CONSUMABLE | KEY | MATERIAL

fun item_type_value :: "item_type \<Rightarrow> string" where
  "item_type_value WEAPON = ''weapon''"
| "item_type_value ARMOR = ''armor''"
| "item_type_value RING = ''ring''"
| "item_type_value HEAD = ''head''"
| "item_type_value CONSUMABLE = ''consumable''"
| "item_type_value KEY = ''key''"
| "item_type_value MATERIAL = ''material''"

record item =
  item_id :: string
  item_name :: string
  item_description :: string
  item_type :: item_type
  is_curse :: bool
  equipped :: bool
  key_id :: "string option"

record monster =
  monster_name :: string
  monster_hp :: int
  monster_max_hp :: int
  monster_attack :: int
  monster_defense :: int
  stunned :: bool
  unaware :: bool

record npc =
  npc_name :: string
  npc_role :: string
  npc_alive :: bool

datatype room_type = EMPTY | MONSTER | TREASURE | STAIRS_DOWN | STAIRS_UP

text \<open>
  \<open>description\<close> is \<open>Optional[str]\<close>.  \<open>assigned_object\<close> is an optional dictionary of which
  the pipeline reads \<open>.get('name', '')\<close> only: \<open>Some n\<close> is a non-empty dictionary whose
  name (or the default \<open>''\<close>) is \<open>n\<close>, \<open>None\<close> is \<open>None\<close> or the empty dictionary.
\<close>

record room =
  room_kind :: room_type
  description :: "string option"
  room_monster :: "monster option"
  room_npc :: "npc option"
  loot :: "item list"
  looted :: bool
  destroyed_objects :: "string list"
  discovered_objects :: "string list"
  assigned_object :: "string option"

record attributes =
  strength :: int
  dexterity :: int
  wisdom :: int
  intelligence :: int
  vitality :: int

record buff =
  buff_name :: string
  buff_type :: string
  buff_value :: int
  duration :: int

record spell =
  spell_name :: string
  effect_type :: string
  magnitude :: string
  components :: "string list"
  gesture :: string
  words :: string
  spell_plausibility :: real
  discovery_context :: string
  uses :: int

record grimoire =
  spells :: "spell list"
  total_discoveries :: int
  current_run_discoveries :: int

text \<open>
  The gift is an optional dictionary; \<open>secret_bonus\<close> is its dictionary
  \<open>gift.get('secret_bonus', {})\<close> as an association list.
\<close>

record gift =
  gift_name :: string
  discovery_hint :: "string option"
  secret_bonus :: "(string \<times> int) list"

text \<open>
  \<open>equipment\<close> is the dictionary from slot to item or \<open>None\<close>, in insertion order
  (\<open>weapon\<close>, \<open>armor\<close>, \<open>ring\<close>, \<open>head\<close>).
\<close>

record player =
  player_name :: string
  race :: string
  player_attributes :: attributes
  hp :: int
  max_hp :: int
  attack :: int
  defense :: int
  gold :: int
  xp :: int
  level :: int
  buffs :: "buff list"
  inventory :: "item list"
  equipment :: "(string \<times> item option) list"
  player_grimoire :: grimoire
  player_gift :: "gift option"
  morality :: int

text \<open>
  The intent is the dictionary the interpreter returns.  A field is \<open>None\<close> when the key
  is absent, so that \<open>intent.get(key, default)\<close> is the default; for \<open>target\<close>, whose value
  may be JSON \<open>null\<close>, \<open>None\<close> is also the value \<open>null\<close> (\<open>intent.get('target')\<close> is \<open>None\<close> in
  both cases).  The key \<open>method\<close> is the field \<open>action_method\<close>.  A key that is present holds a value of the type the output contract of
  the interpreter gives it.
\<close>

record intent =
  action_type :: "string option"
  target :: "string option"
  action_method :: "string option"
  plausibility :: "real option"
  valid :: "bool option"
  reason_if_invalid :: "string option"
  components_used :: "string list option"

text \<open>\<open>intent.get('method', '')\<close> and \<open>intent.get('components_used', [])\<close>.\<close>

definition intent_method :: "intent \<Rightarrow> string" where
  "intent_method i = (case action_method i of None \<Rightarrow> [] | Some m \<Rightarrow> m)"

definition intent_components :: "intent \<Rightarrow> string list" where
  "intent_components i = (case components_used i of None \<Rightarrow> [] | Some cs \<Rightarrow> cs)"

section \<open>The validator (\<open>ActionValidator\<close>)\<close>

text \<open>The dictionary \<open>{'allowed': True}\<close> or \<open>{'allowed': False, 'reason': r}\<close>.\<close>

datatype validation = Allowed | Denied string

definition FORBIDDEN_METHODS :: "string list" where
  "FORBIDDEN_METHODS =
     [''teleport'', ''fly'', ''phase_through'', ''time_travel'',
      ''summon'', ''resurrect'', ''omniscience'', ''invincibility'']"

definition exploration_targets :: "string list" where
  "exploration_targets =
     [''room'', ''raum'', ''environment'', ''umgebung'', ''self'',
      ''ausg'' @ [CHR 0xE4] @ ''nge'', ''exits'', ''ausgang'', ''exit'',
      ''w'' @ [CHR 0xE4] @ ''nde'', ''walls'', ''wand'', ''wall'',
      ''boden'', ''floor'', ''decke'', ''ceiling'',
      ''gegend'', ''area'', ''surroundings'']"

definition taking_keywords :: "string list" where
  "taking_keywords =
     [''nimm'', ''nehm'', ''take'', ''grab'', ''pick up'', ''mitnehm'', ''einsteck'', ''pack'']"

definition immovable_objects :: "string list" where
  "immovable_objects =
     [''altar'', ''statue'', ''wand'', ''wall'', ''mauer'', ''boden'', ''floor'',
      ''decke'', ''ceiling'', ''s'' @ [CHR 0xE4] @ ''ule'', ''column'', ''pfeiler'', ''pillar'',
      ''t'' @ [CHR 0xFC] @ ''r'', ''door'', ''tor'', ''gate'', ''treppe'', ''stairs'',
      ''leiter'', ''ladder'',
      ''thron'', ''throne'', ''tisch'', ''table'', ''stuhl'', ''chair'',
      ''sarkophag'', ''sarcophagus'', ''grab'', ''grave'', ''gruft'', ''crypt'',
      ''brunnen'', ''fountain'', ''well'', ''becken'', ''basin'', ''pool'']"

text \<open>
  \<open>for item in items: if target.lower() in item.name.lower(): ...; break\<close>, used for the
  room loot and the inventory.
\<close>

definition target_in_items :: "string \<Rightarrow> item list \<Rightarrow> bool" where
  "target_in_items tgt items = list_ex (\<lambda>it. str_in (lower tgt) (lower (item_name it))) items"

definition target_in_equipment :: "string \<Rightarrow> (string \<times> item option) list \<Rightarrow> bool" where
  "target_in_equipment tgt eq =
     list_ex (\<lambda>(slot, it). case it of None \<Rightarrow> False
                | Some i \<Rightarrow> str_in (lower tgt) (lower (item_name i))) eq"

definition matches_with_declension :: "string \<Rightarrow> string \<Rightarrow> bool" where
  "matches_with_declension target_word npc_word =
     (if target_word = npc_word then True
      else if length target_word \<ge> 5 \<and> length npc_word \<ge> 5
      then (str_in target_word npc_word \<or> str_in npc_word target_word)
      else False)"

definition target_matches_npc :: "string \<Rightarrow> npc option \<Rightarrow> bool" where
  "target_matches_npc tgt n =
     (case n of None \<Rightarrow> False
      | Some n \<Rightarrow> npc_alive n \<and>
          (matches_with_declension (lower tgt) (lower (npc_name n)) \<or>
           matches_with_declension (lower tgt) (lower (npc_role n))))"

definition target_matches_assigned :: "string \<Rightarrow> string option \<Rightarrow> bool" where
  "target_matches_assigned tgt obj =
     (case obj of None \<Rightarrow> False
      | Some n \<Rightarrow> str_in (lower n) (lower tgt) \<or> str_in (lower tgt) (lower n))"

text \<open>The bidirectional substring match of the discovered and the destroyed objects.\<close>

definition target_matches_any :: "string \<Rightarrow> string list \<Rightarrow> bool" where
  "target_matches_any tgt objs =
     list_ex (\<lambda>obj. str_in (lower obj) (lower tgt) \<or> str_in (lower tgt) (lower obj)) objs"

definition is_target_sep :: "char \<Rightarrow> bool" where
  "is_target_sep c = (is_space c \<or> c = CHR ''-'')"

definition is_text_sep :: "char \<Rightarrow> bool" where
  "is_text_sep c = (is_space c \<or> c \<in> set ''-,.:;!?'')"

definition target_words :: "string \<Rightarrow> string list" where
  "target_words tgt = filter (\<lambda>w. length w > 3) (re_split is_target_sep (lower tgt))"

definition word_matches :: "string \<Rightarrow> string \<Rightarrow> bool" where
  "word_matches target_word text =
     list_ex (\<lambda>text_word. length target_word \<ge> 4 \<and> length text_word \<ge> 4 \<and>
                (str_in target_word text_word \<or> str_in text_word target_word))
       (re_split is_text_sep text)"

definition is_anchor_object :: "string \<Rightarrow> string \<Rightarrow> bool" where
  "is_anchor_object tgt desc = list_ex (\<lambda>w. word_matches w (lower desc)) (target_words tgt)"

definition is_taking :: "string \<Rightarrow> bool" where
  "is_taking method_text = any_keyword_in taking_keywords (lower method_text)"

definition is_truly_immovable :: "string \<Rightarrow> bool" where
  "is_truly_immovable tgt = any_keyword_in immovable_objects (lower tgt)"

definition has_ability :: "player \<Rightarrow> string \<Rightarrow> bool" where
  "has_ability p ability =
     (let enabling_items =
            (if ability = ''fly'' then [''wings'', ''levitation potion'', ''flight spell'']
             else if ability = ''teleport'' then [''teleportation scroll'', ''warp stone'']
             else if ability = ''phase_through'' then [''ethereal cloak'', ''ghost potion'']
             else []);
          inventory_names_lower = map (\<lambda>it. lower (item_name it)) (inventory p)
      in list_ex (\<lambda>it. it \<in> set inventory_names_lower) enabling_items)"

text \<open>The reasons \<open>f'OBJECT_DESTROYED: {target} ...'\<close> and \<open>f'OBJECT_FIXED: {target} ...'\<close>.\<close>

definition destroyed_message :: "string \<Rightarrow> string" where
  "destroyed_message tgt =
     ''OBJECT_DESTROYED: '' @ tgt @ '' ist irreparabel zerst'' @ [CHR 0xF6] @ ''rt''"

definition fixed_message :: "string \<Rightarrow> string" where
  "fixed_message tgt =
     ''OBJECT_FIXED: '' @ tgt @ '' ist fest verbaut und kann nicht mitgenommen werden''"

text \<open>
  The target existence check of \<open>validate\<close>, lines 113 to 275: \<open>None\<close> when the search
  goes through (the target was found), otherwise the reason of the denial.  The flag
  \<open>target_found\<close> of the source is the disjunction of the searches in their order; the two
  \<open>return\<close>s inside the description block come before the final test of the flag.
\<close>

definition target_check :: "intent \<Rightarrow> string \<Rightarrow> player \<Rightarrow> room \<Rightarrow> string option" where
  "target_check i tgt p r =
     (let found_before =
            ((case room_monster r of None \<Rightarrow> False
              | Some m \<Rightarrow> str_in (lower tgt) (lower (monster_name m)))
             \<or> target_in_items tgt (loot r)
             \<or> target_in_items tgt (inventory p)
             \<or> target_in_equipment tgt (equipment p)
             \<or> target_matches_npc tgt (room_npc r)
             \<or> target_matches_assigned tgt (assigned_object r)
             \<or> target_matches_any tgt (discovered_objects r))
      in case description r of
           None \<Rightarrow> (if found_before then None else Some (''TARGET_NOT_PRESENT: '' @ tgt))
         | Some desc \<Rightarrow>
            (if desc = [] then
               (if found_before then None else Some (''TARGET_NOT_PRESENT: '' @ tgt))
             else if target_matches_any tgt (destroyed_objects r) then
               Some (destroyed_message tgt)
             else if is_anchor_object tgt desc then
               (if is_taking (intent_method i) \<and> \<not> target_in_items tgt (loot r) \<and>
                   is_truly_immovable tgt
                then Some (fixed_message tgt)
                else None)
             else if found_before then None
             else Some (''TARGET_NOT_PRESENT: '' @ tgt)))"

text \<open>
  The three later stages of \<open>validate\<close>, each \<open>None\<close> when it lets the intent through:
  the target stage (lines 101 to 275; it runs only for a non-empty target, the three
  action types and a target that is no exploration word), the physics stage (the first
  forbidden method found in the lowercased method text for which the player has no
  enabling item) and the component stage (the first entry of \<open>components_used\<close> that is
  not \<open>in\<close> the list of the inventory's item names).
\<close>

definition target_stage :: "intent \<Rightarrow> player \<Rightarrow> room \<Rightarrow> string option" where
  "target_stage i p r =
     (case target i of
        None \<Rightarrow> None
      | Some tgt \<Rightarrow>
          (if tgt \<noteq> [] \<and>
              action_type i \<in> {Some ''physical_attack'', Some ''social'', Some ''interact_object''} \<and>
              lower tgt \<notin> set exploration_targets
           then target_check i tgt p r else None))"

definition physics_stage :: "intent \<Rightarrow> player \<Rightarrow> string option" where
  "physics_stage i p =
     find (\<lambda>forbidden. str_in forbidden (lower (intent_method i)) \<and> \<not> has_ability p forbidden)
       FORBIDDEN_METHODS"

definition component_stage :: "intent \<Rightarrow> player \<Rightarrow> string option" where
  "component_stage i p =
     find (\<lambda>component. component \<notin> set (map item_name (inventory p))) (intent_components i)"

text \<open>
  \<open>validate(intent, player, room)\<close>.  The checks run in the order of the source and the
  first denial is returned.
\<close>

definition validate :: "intent \<Rightarrow> player \<Rightarrow> room \<Rightarrow> validation" where
  "validate i p r =
     (if \<not> (case valid i of None \<Rightarrow> True | Some v \<Rightarrow> v) then
        Denied (case reason_if_invalid i of None \<Rightarrow> ''INTERPRETER_REJECTION'' | Some s \<Rightarrow> s)
      else if (case plausibility i of None \<Rightarrow> 0 | Some q \<Rightarrow> q) < 0.1 then
        Denied ''IMPLAUSIBLE''
      else
        (case target_stage i p r of
           Some reason \<Rightarrow> Denied reason
         | None \<Rightarrow>
            (case physics_stage i p of
               Some forbidden \<Rightarrow> Denied (''PHYSICS_VIOLATION: '' @ forbidden)
             | None \<Rightarrow>
                (case component_stage i p of
                   Some component \<Rightarrow> Denied (''MISSING_COMPONENT: '' @ component)
                 | None \<Rightarrow> Allowed))))"

section \<open>The resolver (\<open>ActionResolver\<close>)\<close>

subsection \<open>Rewards and penalties\<close>

text \<open>The impact dictionary \<open>{'hp': .., 'gold': .., 'xp': .., 'item': ..}\<close>.\<close>

record impact =
  impact_hp :: int
  impact_gold :: int
  impact_xp :: int
  impact_item :: "item option"

definition no_impact :: impact where
  "no_impact = \<lparr>impact_hp = 0, impact_gold = 0, impact_xp = 0, impact_item = None\<rparr>"

definition treasure_keywords :: "string list" where
  "treasure_keywords =
     [''schatz'', ''treasure'', ''gold'', ''m'' @ [CHR 0xFC] @ ''nz'', ''coin'', ''geld'', ''money'',
      ''pl'' @ [CHR 0xFC] @ ''nder'', ''loot'', ''beute'', ''wertsach'', ''valuabl'',
      ''durchsuch'', ''search for'', ''suche nach'', ''finde'', ''versteck'', ''hidden'',
      ''truhe'', ''chest'', ''kiste'', ''box'', ''schatzkammer'', ''vault'']"

text \<open>
  \<open>difficulty = int(20 - (plausibility * 15))\<close>, the conversion that \<open>resolve_free_action\<close>
  (line 1193) and \<open>resolve_magic_attempt\<close> (lines 590 and 666) apply to the plausibility,
  followed in \<open>resolve_free_action\<close> by the floor of 12 for a search action
  (\<open>max(difficulty, 12)\<close>, line 1202).
\<close>

definition action_difficulty :: "real \<Rightarrow> bool \<Rightarrow> int" where
  "action_difficulty plaus is_searching =
     (let difficulty = py_int (20 - plaus * 15)
      in if is_searching then max difficulty 12 else difficulty)"

text \<open>
  \<open>determine_rewards(success, roll_total, difficulty, plaus, action_type,
  action_text)\<close>.  \<open>action_type\<close> and \<open>action_text\<close> default to \<open>None\<close>.  On a critical
  treasure action the gold is drawn, and then \<open>random.random()\<close> takes one more element of
  the random source (its value decides nothing: the branch is \<open>pass\<close>).
  \<open>random.randint(1, margin // 2 + 1)\<close> has an upper bound of at least 1 whenever
  \<open>success\<close> is \<open>roll_total >= difficulty\<close>, as it is at every call of the pipeline.
\<close>

definition determine_rewards ::
  "bool \<Rightarrow> int \<Rightarrow> int \<Rightarrow> real \<Rightarrow> string option \<Rightarrow> string option \<Rightarrow> rng \<Rightarrow> impact \<times> rng" where
  "determine_rewards success roll_total difficulty plaus act_type action_text g =
     (if success then
        (let margin = roll_total - difficulty;
             xp_value =
               (if plaus \<ge> 0.8 then 0
                else if plaus \<ge> 0.6 then max 1 (difficulty div 2)
                else (let creativity_bonus = py_int ((1 - plaus) * 10)
                      in difficulty + (margin * 2) + creativity_bonus));
             is_treasure_action =
               (case action_text of None \<Rightarrow> False
                | Some txt \<Rightarrow> txt \<noteq> [] \<and> any_keyword_in treasure_keywords (lower txt))
         in if margin \<ge> 10 \<and> act_type \<noteq> Some ''social'' \<and> is_treasure_action
            then (let (gold_value, g1) = randint 5 15 g
                  in (no_impact\<lparr>impact_xp := xp_value, impact_gold := gold_value\<rparr>, advance g1))
            else (no_impact\<lparr>impact_xp := xp_value\<rparr>, g))
      else
        (let margin = difficulty - roll_total
         in if margin \<ge> 8 then
              (let (dmg, g1) = randint 2 5 g in (no_impact\<lparr>impact_hp := - dmg\<rparr>, g1))
            else if margin \<ge> 5 then
              (let (dmg, g1) = randint 1 3 g in (no_impact\<lparr>impact_hp := - dmg\<rparr>, g1))
            else if difficulty \<ge> 14 then
              (let (dmg, g1) = randint 1 (margin div 2 + 1) g
               in (no_impact\<lparr>impact_hp := - dmg\<rparr>, g1))
            else (no_impact, g)))"

subsection \<open>Magic\<close>

text \<open>
  The exceptions of the modelled code.  \<open>OutsideModel\<close> is no Python exception: it marks a
  run that stores a value of another type in a field the model types (see
  \<open>process_discoveries\<close>); such a run is not followed further.
\<close>

datatype py_error = KeyError string | AttributeError string | TypeError string | OutsideModel string

text \<open>\<open>str(n)\<close> for an integer, as an f-string prints it.\<close>

fun str_of_nat :: "nat \<Rightarrow> string" where
  "str_of_nat n =
     (if n < 10 then [char_of (48 + n)]
      else str_of_nat (n div 10) @ [char_of (48 + n mod 10)])"

declare str_of_nat.simps [simp del]

definition str_of_int :: "int \<Rightarrow> string" where
  "str_of_int k = (if k < 0 then ''-'' @ str_of_nat (nat (- k)) else str_of_nat (nat k))"

fun room_type_value :: "room_type \<Rightarrow> string" where
  "room_type_value EMPTY = ''EMPTY''"
| "room_type_value MONSTER = ''MONSTER''"
| "room_type_value TREASURE = ''TREASURE''"
| "room_type_value STAIRS_DOWN = ''STAIRS_DOWN''"
| "room_type_value STAIRS_UP = ''STAIRS_UP''"

text \<open>
  \<open>re.search(r'["\']([^"\']+)["\']', method)\<close>: the first quote character that is followed by
  a non-empty run of characters that are no quotes and then by a quote; the group is the
  run.
\<close>

definition is_quote :: "char \<Rightarrow> bool" where
  "is_quote c = (c = CHR 0x22 \<or> c = CHR 0x27)"

fun quoted_words :: "string \<Rightarrow> string option" where
  "quoted_words [] = None"
| "quoted_words (c # cs) =
     (if is_quote c \<and> takeWhile (\<lambda>x. \<not> is_quote x) cs \<noteq> [] \<and>
         dropWhile (\<lambda>x. \<not> is_quote x) cs \<noteq> []
      then Some (takeWhile (\<lambda>x. \<not> is_quote x) cs)
      else quoted_words cs)"

text \<open>\<open>Grimoire.find_spell\<close> and \<open>Grimoire.add_spell\<close>.\<close>

definition spell_matches :: "string list \<Rightarrow> string \<Rightarrow> spell \<Rightarrow> bool" where
  "spell_matches comps wds sp =
     (set (components sp) = set comps \<and> lower (words sp) = lower wds)"

definition find_spell :: "grimoire \<Rightarrow> string list \<Rightarrow> string \<Rightarrow> spell option" where
  "find_spell gr comps wds = find (spell_matches comps wds) (spells gr)"

definition add_spell :: "grimoire \<Rightarrow> spell \<Rightarrow> bool \<times> grimoire" where
  "add_spell gr sp =
     (if list_ex (\<lambda>existing. spell_name existing = spell_name sp \<or>
                    (set (components existing) = set (components sp) \<and>
                     lower (words existing) = lower (words sp))) (spells gr)
      then (False, gr)
      else (True, gr\<lparr>spells := spells gr @ [sp],
                       total_discoveries := total_discoveries gr + 1,
                       current_run_discoveries := current_run_discoveries gr + 1\<rparr>))"

text \<open>
  \<open>find_spell\<close> returns the spell object of the list itself, and \<open>known_spell.uses += 1\<close>
  changes it in place: in the model the first spell of the list that matches is replaced.
\<close>

fun update_first :: "('a \<Rightarrow> bool) \<Rightarrow> ('a \<Rightarrow> 'a) \<Rightarrow> 'a list \<Rightarrow> 'a list" where
  "update_first P f [] = []"
| "update_first P f (x # xs) = (if P x then f x # xs else x # update_first P f xs)"

definition increment_uses :: "string list \<Rightarrow> string \<Rightarrow> player \<Rightarrow> player" where
  "increment_uses comps wds p =
     p\<lparr>player_grimoire := (player_grimoire p)\<lparr>spells :=
          update_first (spell_matches comps wds) (\<lambda>sp. sp\<lparr>uses := uses sp + 1\<rparr>)
            (spells (player_grimoire p))\<rparr>\<rparr>"

definition adjust_morality :: "int \<Rightarrow> player \<Rightarrow> player" where
  "adjust_morality amount p = p\<lparr>morality := max (-100) (min 100 (morality p + amount))\<rparr>"

definition magnitude_mult :: "string \<Rightarrow> real" where
  "magnitude_mult mag =
     (if mag = ''minor'' then 1 else if mag = ''moderate'' then 1.5
      else if mag = ''major'' then 2 else 1)"

definition monster_is_alive :: "room \<Rightarrow> bool" where
  "monster_is_alive r = (case room_monster r of None \<Rightarrow> False | Some m \<Rightarrow> monster_hp m > 0)"

definition change_monster :: "(monster \<Rightarrow> monster) \<Rightarrow> room \<Rightarrow> room" where
  "change_monster f r = r\<lparr>room_monster := map_option f (room_monster r)\<rparr>"

text \<open>
  \<open>apply_spell_effect(spell, player, room, target)\<close>: the impact, and the player, the room
  and the random source after the effect.  (\<open>target\<close> is not read by the source.)
\<close>

definition apply_spell_effect ::
  "spell \<Rightarrow> player \<Rightarrow> room \<Rightarrow> rng \<Rightarrow> impact \<times> player \<times> room \<times> rng" where
  "apply_spell_effect sp p r g =
     (let base = no_impact\<lparr>impact_xp := 1\<rparr>;
          mult = magnitude_mult (magnitude sp);
          et = effect_type sp
      in if et = ''fire'' then
           (if monster_is_alive r then
              (let (n, g1) = randint 5 15 g; damage = py_int (real_of_int n * mult)
               in (base\<lparr>impact_hp := 0, impact_xp := py_int (10 * mult)\<rparr>, p,
                   change_monster (\<lambda>m. m\<lparr>monster_hp := monster_hp m - damage\<rparr>) r, g1))
            else (let (n, g1) = randint 1 2 g in (base\<lparr>impact_hp := - n\<rparr>, p, r, g1)))
         else if et = ''ice'' then
           (if monster_is_alive r then
              (let (n, g1) = randint 3 10 g; damage = py_int (real_of_int n * mult)
               in (base\<lparr>impact_xp := py_int (12 * mult)\<rparr>, p,
                   change_monster
                     (\<lambda>m. m\<lparr>monster_hp := monster_hp m - damage, stunned := True\<rparr>) r, g1))
            else (let (n, g1) = randint 1 2 g in (base\<lparr>impact_hp := - n\<rparr>, p, r, g1)))
         else if et = ''lightning'' then
           (if monster_is_alive r then
              (let (n, g1) = randint 8 20 g; damage = py_int (real_of_int n * mult)
               in (base\<lparr>impact_xp := py_int (15 * mult)\<rparr>, p,
                   change_monster (\<lambda>m. m\<lparr>monster_hp := monster_hp m - damage\<rparr>) r, g1))
            else (let (n, g1) = randint 2 4 g in (base\<lparr>impact_hp := - n\<rparr>, p, r, g1)))
         else if et = ''heal'' then
           (let (n, g1) = randint 10 20 g; heal_amount = py_int (real_of_int n * mult)
            in (base\<lparr>impact_hp := heal_amount, impact_xp := py_int (5 * mult)\<rparr>,
                p\<lparr>hp := min (max_hp p) (hp p + heal_amount)\<rparr>, r, g1))
         else if et = ''shield'' then
           (let (n, g1) = randint 3 8 g; buff_amount = py_int (real_of_int n * mult)
            in (base\<lparr>impact_xp := py_int (8 * mult)\<rparr>,
                p\<lparr>buffs := buffs p @ [\<lparr>buff_name = ''Magic Shield'', buff_type = ''defense'',
                                         buff_value = buff_amount, duration = 3\<rparr>]\<rparr>, r, g1))
         else if et = ''dark'' then
           (if monster_is_alive r then
              (let (n, g1) = randint 6 12 g; damage = py_int (real_of_int n * mult)
               in (base\<lparr>impact_xp := py_int (12 * mult)\<rparr>, p,
                   change_monster
                     (\<lambda>m. m\<lparr>monster_hp := monster_hp m - damage,
                             monster_defense := max 0 (monster_defense m - 2)\<rparr>) r, g1))
            else (let (n, g1) = randint 2 5 g in (base\<lparr>impact_hp := - n\<rparr>, p, r, g1)))
         else if et = ''light'' then
           (let (n, g1) = randint 5 10 g; heal_amount = py_int (real_of_int n * mult)
            in (base\<lparr>impact_hp := heal_amount, impact_xp := py_int (6 * mult)\<rparr>,
                p\<lparr>hp := min (max_hp p) (hp p + heal_amount)\<rparr>, r, g1))
         else (base\<lparr>impact_xp := py_int (5 * mult)\<rparr>, p, r, g))"

text \<open>
  The dictionary of the magic evaluator (\<open>ai_service.evaluate_magic\<close>), a field \<open>None\<close>
  when the key is absent, and the dictionary \<open>resolve_magic_attempt\<close> returns.  The path of
  an invalid attempt returns neither roll nor total, difficulty or plausibility, and only
  the known-spell path sets \<open>known_spell_cast\<close>.
\<close>

record magic_data =
  md_spell_name :: "string option"
  md_effect_type :: "string option"
  md_magnitude :: "string option"
  md_is_valid_attempt :: "bool option"
  md_is_discovery :: "bool option"
  md_plausibility :: "real option"
  md_consequence :: "string option"

record magic_result =
  mr_success :: bool
  mr_magic_data :: "magic_data option"
  mr_spell_discovered :: bool
  mr_known_spell_cast :: "bool option"
  mr_roll :: "int option"
  mr_total :: "int option"
  mr_difficulty :: "int option"
  mr_plausibility :: "real option"
  mr_impact :: impact

text \<open>
  The known-spell path of \<open>resolve_magic_attempt\<close>, lines 586 to 642, for the spell
  \<open>known_spell\<close> that \<open>find_spell(components_used, words)\<close> found.  The check is rolled on
  the intelligence without gift bonus; the counter \<open>uses\<close> is incremented right after the
  check, before the result is looked at.
\<close>

definition cast_known_spell ::
  "spell \<Rightarrow> string list \<Rightarrow> string \<Rightarrow> player \<Rightarrow> room \<Rightarrow> rng
     \<Rightarrow> magic_result \<times> player \<times> room \<times> rng" where
  "cast_known_spell known_spell comps wds p r g =
     (let plaus = min 0.95 (spell_plausibility known_spell + 0.2);
          dc = py_int (20 - plaus * 15);
          attr_value = intelligence (player_attributes p);
          ((ok, rolled, tot), g1) = attribute_check attr_value dc False False 0 g;
          p1 = increment_uses comps wds p;
          data = \<lparr>md_spell_name = Some (spell_name known_spell),
                  md_effect_type = Some (effect_type known_spell),
                  md_magnitude = Some (magnitude known_spell),
                  md_is_valid_attempt = Some True, md_is_discovery = Some False,
                  md_plausibility = Some plaus, md_consequence = None\<rparr>
      in if ok then
           (let (spell_impact, p2, r2, g2) = apply_spell_effect known_spell p1 r g1
            in (\<lparr>mr_success = True, mr_magic_data = Some data, mr_spell_discovered = False,
                  mr_known_spell_cast = Some True, mr_roll = Some rolled, mr_total = Some tot,
                  mr_difficulty = Some dc, mr_plausibility = Some plaus,
                  mr_impact = spell_impact\<rparr>, p2, r2, g2))
         else
           (let (n, g2) = randint 1 3 g1
            in (\<lparr>mr_success = False, mr_magic_data = Some data, mr_spell_discovered = False,
                  mr_known_spell_cast = Some False, mr_roll = Some rolled, mr_total = Some tot,
                  mr_difficulty = Some dc, mr_plausibility = Some plaus,
                  mr_impact = no_impact\<lparr>impact_hp := - n\<rparr>\<rparr>, p1, r, g2)))"

text \<open>
  \<open>resolve_magic_attempt(action, intent, player, room, ai_service)\<close>.  \<open>evaluate_magic\<close> is
  the method of the AI service, called with the components, the gesture (the whole method
  text), the words (\<open>spoken_words\<close>: the quoted part of the method text, or \<open>''\<close>) and the
  environment; it returns \<open>None\<close> or the evaluator's dictionary.
  \<open>magic_data['spell_name']\<close>, \<open>['effect_type']\<close> and \<open>['magnitude']\<close> raise \<open>KeyError\<close> when the
  key is absent.
\<close>

definition spoken_words :: "intent \<Rightarrow> string" where
  "spoken_words i = (case quoted_words (intent_method i) of None \<Rightarrow> [] | Some w \<Rightarrow> w)"

definition resolve_magic_attempt ::
  "string \<Rightarrow> intent \<Rightarrow> player \<Rightarrow> room
     \<Rightarrow> (string list \<Rightarrow> string \<Rightarrow> string \<Rightarrow> string \<Rightarrow> magic_data option) \<Rightarrow> rng
     \<Rightarrow> py_error + (magic_result \<times> player \<times> room \<times> rng)" where
  "resolve_magic_attempt action i p r evaluate_magic g =
     (let comps = intent_components i;
          meth = intent_method i;
          wds = spoken_words i;
          invalid_attempt =
            \<lparr>mr_success = False, mr_magic_data = None, mr_spell_discovered = False,
             mr_known_spell_cast = None, mr_roll = None, mr_total = None,
             mr_difficulty = None, mr_plausibility = None, mr_impact = no_impact\<rparr>
      in case find_spell (player_grimoire p) comps wds of
           Some known_spell \<Rightarrow> Inr (cast_known_spell known_spell comps wds p r g)
         | None \<Rightarrow>
            (case evaluate_magic comps meth wds
                    (case description r of
                       None \<Rightarrow> room_type_value (room_kind r)
                     | Some d \<Rightarrow> if d = [] then room_type_value (room_kind r) else d) of
               None \<Rightarrow> Inr (invalid_attempt, p, r, g)
             | Some md \<Rightarrow>
                (if md_is_valid_attempt md \<noteq> Some True then Inr (invalid_attempt, p, r, g)
                 else
                   (let plaus = (case md_plausibility md of None \<Rightarrow> 0.1 | Some q \<Rightarrow> q);
                        dc = py_int (20 - plaus * 15);
                        attr_value = intelligence (player_attributes p);
                        ((ok, rolled, tot), g1) = attribute_check attr_value dc False False 0 g;
                        (imp, g2) = determine_rewards ok tot dc plaus None (Some action) g1;
                        res = \<lparr>mr_success = ok, mr_magic_data = Some md,
                               mr_spell_discovered = False, mr_known_spell_cast = None,
                               mr_roll = Some rolled, mr_total = Some tot,
                               mr_difficulty = Some dc, mr_plausibility = Some plaus,
                               mr_impact = imp\<rparr>
                    in if ok \<and> md_is_discovery md = Some True then
                         (case md_spell_name md of
                            None \<Rightarrow> Inl (KeyError ''spell_name'')
                          | Some nm \<Rightarrow>
                         (case md_effect_type md of
                            None \<Rightarrow> Inl (KeyError ''effect_type'')
                          | Some et \<Rightarrow>
                         (case md_magnitude md of
                            None \<Rightarrow> Inl (KeyError ''magnitude'')
                          | Some mag \<Rightarrow>
                             (let sp = \<lparr>spell_name = nm, effect_type = et, magnitude = mag,
                                        components = comps, gesture = meth, words = wds,
                                        spell_plausibility = plaus,
                                        discovery_context =
                                          room_type_value (room_kind r) @ '' - '' @
                                          str_of_int (level p),
                                        uses = 0\<rparr>;
                                  (discovered, gr) = add_spell (player_grimoire p) sp;
                                  p1 = p\<lparr>player_grimoire := gr\<rparr>;
                                  p2 = (if md_consequence md = Some ''moral_corruption''
                                        then adjust_morality (-15) p1 else p1);
                                  (spell_impact, p3, r3, g3) = apply_spell_effect sp p2 r g2;
                                  merged =
                                    imp\<lparr>impact_xp := impact_xp imp + impact_xp spell_impact,
                                        impact_hp := (if impact_hp spell_impact \<noteq> 0
                                                      then impact_hp spell_impact
                                                      else impact_hp imp),
                                        impact_gold := (if impact_gold spell_impact > 0
                                                        then impact_gold spell_impact
                                                        else impact_gold imp),
                                        impact_item := (case impact_item spell_impact of
                                                          None \<Rightarrow> impact_item imp
                                                        | Some it \<Rightarrow> Some it)\<rparr>
                              in Inr (res\<lparr>mr_spell_discovered := discovered,
                                          mr_impact := merged\<rparr>, p3, r3, g3)))))
                       else Inr (res, p, r, g2)))))"

subsection \<open>The AI service\<close>

text \<open>
  The text-generation backend and the methods of \<open>AIService\<close> that the resolver calls, as
  parameters of the model:
  \<^item> \<open>ai_available\<close> is \<open>is_available()\<close>;
  \<^item> \<open>interpreter_generate action player room theme\<close> is the text
    \<open>provider.generate\<close> returns for the interpreter prompt that \<open>interpret_action\<close> builds
    from these four (the prompt text is not modelled; every provider returns \<open>''\<close> on an
    error of its own);
  \<^item> \<open>json_loads\<close> is \<open>json.loads\<close> on that text;
  \<^item> \<open>evaluate_magic\<close> and \<open>generate_crafted_item\<close> are the methods of these names.

  \<open>json.loads\<close> raises \<open>JSONDecodeError\<close> (\<open>DecodeError\<close>), returns a JSON object, read as an
  intent (\<open>Object\<close>), or returns another JSON value (\<open>Other\<close>); for the last the
  interpreter answers with an invalid intent, and \<open>Other\<close> carries its reason (for an
  array or a string that is \<open>LLM response missing 'action_type'\<close>, for a number the text
  of the \<open>TypeError\<close>).
\<close>

datatype loaded = DecodeError | Object intent | Other string

record ai_service =
  ai_available :: bool
  interpreter_generate :: "string \<Rightarrow> player \<Rightarrow> room \<Rightarrow> string \<Rightarrow> string"
  json_loads :: "string \<Rightarrow> loaded"
  evaluate_magic :: "string list \<Rightarrow> string \<Rightarrow> string \<Rightarrow> string \<Rightarrow> magic_data option"
  generate_crafted_item :: "string \<Rightarrow> string list \<Rightarrow> string \<Rightarrow> string \<Rightarrow> item option"

text \<open>
  The dictionary \<open>{"valid": False, "reason_if_invalid": reason, "plausibility": 0.0}\<close> that
  \<open>interpret_action\<close> returns on every failure, and the fallback intent of
  \<open>resolve_free_action\<close> (lines 936 to 944).
\<close>

definition invalid_intent :: "string \<Rightarrow> intent" where
  "invalid_intent reason =
     \<lparr>action_type = None, target = None, action_method = None, plausibility = Some 0,
      valid = Some False, reason_if_invalid = Some reason, components_used = None\<rparr>"

definition fallback_intent :: "string \<Rightarrow> intent" where
  "fallback_intent action =
     \<lparr>action_type = Some ''interact_object'', target = None, action_method = Some action,
      plausibility = Some 0.5, valid = Some True, reason_if_invalid = None,
      components_used = Some []\<rparr>"

text \<open>
  \<open>AIService.interpret_action(action_text, player, room, theme_context)\<close>, lines 95 to
  218.  The required fields are tested in the order \<open>action_type\<close>, \<open>valid\<close>,
  \<open>plausibility\<close>.
\<close>

definition interpret_action :: "ai_service \<Rightarrow> string \<Rightarrow> player \<Rightarrow> room \<Rightarrow> string \<Rightarrow> intent" where
  "interpret_action ai action_text p r theme_context =
     (if \<not> ai_available ai then invalid_intent ''AI not available''
      else
        (let response = interpreter_generate ai action_text p r theme_context
         in if response = [] then invalid_intent ''LLM returned empty response''
            else
              (case json_loads ai response of
                 DecodeError \<Rightarrow> invalid_intent ''LLM returned invalid JSON''
               | Other reason \<Rightarrow> invalid_intent reason
               | Object i \<Rightarrow>
                   (if action_type i = None
                    then invalid_intent (''LLM response missing '' @ [CHR 0x27] @ ''action_type''
                                         @ [CHR 0x27])
                    else if valid i = None
                    then invalid_intent (''LLM response missing '' @ [CHR 0x27] @ ''valid''
                                         @ [CHR 0x27])
                    else if plausibility i = None
                    then invalid_intent (''LLM response missing '' @ [CHR 0x27] @ ''plausibility''
                                         @ [CHR 0x27])
                    else i))))"

subsection \<open>Resolving a free action\<close>

text \<open>The game object, as far as the resolver reads it: \<open>game.theme\<close> and \<open>game.story_context\<close>.\<close>

record game_info =
  theme :: string
  story_context :: string

text \<open>
  Step 1 of \<open>resolve_free_action\<close>, lines 913 to 944.  \<open>interpret_action\<close> is called only
  when the service is available; it returns a non-empty dictionary in every case, so
  \<open>if not intent\<close> holds exactly when it was not called.
\<close>

definition interpretation_stage ::
  "ai_service \<Rightarrow> string \<Rightarrow> player \<Rightarrow> room \<Rightarrow> game_info option \<Rightarrow> intent" where
  "interpretation_stage ai action p r game =
     (if ai_available ai then
        (let theme_context =
               (case game of
                  None \<Rightarrow> ''Generic fantasy dungeon''
                | Some gm \<Rightarrow> if story_context gm \<noteq> [] then theme gm @ '': '' @ story_context gm
                             else theme gm)
         in interpret_action ai action p r theme_context)
      else fallback_intent action)"

text \<open>
  The dictionary \<open>resolve_free_action\<close> returns, without its \<open>context\<close> entry (a summary of
  player and room for the narrator's prompt).  A rejected result has the keys \<open>success\<close>,
  \<open>rejected\<close>, \<open>rejection_reason\<close>, \<open>intent\<close> and \<open>impact\<close> only; its other fields hold
  the defaults below and are never read.
\<close>

record result =
  res_success :: bool
  res_rejected :: bool
  rejection_reason :: "string option"
  res_attribute :: "string option"
  res_attribute_value :: int
  res_difficulty :: int
  res_plausibility :: real
  res_roll :: int
  res_total :: int
  res_intent :: intent
  res_impact :: impact
  equipped_item :: "item option"
  gift_discovered :: bool
  gift_bonus :: int
  res_magic_data :: "magic_data option"
  spell_discovered :: bool
  known_spell_cast :: bool

definition rejected_result :: "string \<Rightarrow> intent \<Rightarrow> result" where
  "rejected_result reason i =
     \<lparr>res_success = False, res_rejected = True, rejection_reason = Some reason,
      res_attribute = None, res_attribute_value = 0, res_difficulty = 0, res_plausibility = 0.5,
      res_roll = 0, res_total = 0, res_intent = i, res_impact = no_impact,
      equipped_item = None, gift_discovered = False, gift_bonus = 0,
      res_magic_data = None, spell_discovered = False, known_spell_cast = False\<rparr>"

definition get_gift_bonus :: "player \<Rightarrow> string \<Rightarrow> int" where
  "get_gift_bonus p attribute_name =
     (case player_gift p of
        None \<Rightarrow> 0
      | Some gf \<Rightarrow> (case map_of (secret_bonus gf) (attribute_name @ ''_rolls'') of
                     None \<Rightarrow> 0 | Some b \<Rightarrow> b))"

definition map_action_to_attribute :: "string \<Rightarrow> string \<Rightarrow> string option" where
  "map_action_to_attribute act_type method_text =
     (let method_lower = lower method_text
      in if any_keyword_in [''force'', ''break'', ''smash'', ''lift'', ''push''] method_lower
         then Some ''strength''
         else if any_keyword_in [''dodge'', ''sneak'', ''climb'', ''jump'', ''quick''] method_lower
         then Some ''dexterity''
         else if any_keyword_in [''perceive'', ''notice'', ''sense'', ''listen'', ''spot'']
                   method_lower
         then Some ''wisdom''
         else if any_keyword_in [''investigate'', ''recall'', ''decipher'', ''analyze'']
                   method_lower
         then Some ''intelligence''
         else if act_type = ''physical_attack'' then Some ''strength''
         else if act_type = ''environment_action'' then Some ''strength''
         else if act_type = ''move'' then Some ''dexterity''
         else if act_type = ''interact_object'' then Some ''wisdom''
         else if act_type = ''social'' then Some ''intelligence''
         else if act_type = ''attempt_magic'' then Some ''intelligence''
         else if act_type = ''use_item'' then Some ''wisdom''
         else if act_type = ''equip'' then None
         else Some ''wisdom'')"

text \<open>\<open>getattr(player.attributes, attr_name)\<close>; \<open>getattr\<close> with the name \<open>None\<close> raises.\<close>

definition get_attribute :: "attributes \<Rightarrow> string option \<Rightarrow> py_error + int" where
  "get_attribute a attr_name =
     (if attr_name = Some ''strength'' then Inr (strength a)
      else if attr_name = Some ''dexterity'' then Inr (dexterity a)
      else if attr_name = Some ''wisdom'' then Inr (wisdom a)
      else if attr_name = Some ''intelligence'' then Inr (intelligence a)
      else Inl (TypeError ''getattr''))"

definition crafting_keywords :: "string list" where
  "crafting_keywords =
     [''baue'', ''forme'', ''erstelle'', ''arbeite'', ''fertige'', ''schmiede'',
      ''konstruiere'', ''bastle'', ''zusammen'', ''herstell'',
      ''craft'', ''build'', ''forge'', ''create'', ''make'', ''assemble'',
      ''r'' @ [CHR 0xFC] @ ''stung'', ''waffe'', ''dolch'', ''schwert'', ''schild'', ''armor'',
      ''weapon'']"

definition is_crafting_action :: "string \<Rightarrow> string \<Rightarrow> bool" where
  "is_crafting_action action method_text =
     list_ex (\<lambda>keyword. str_in keyword (lower action) \<or> str_in keyword (lower method_text))
       crafting_keywords"

definition material_keywords :: "string list" where
  "material_keywords =
     [''holz'', ''eisen'', ''stahl'', ''leder'', ''fell'', ''haut'', ''metall'', ''stein'',
      ''knochen'', ''erz'', ''splitter'', ''schuppen'', ''stoff'', ''seil'', ''kristall'',
      ''wood'', ''iron'', ''steel'', ''leather'', ''hide'', ''metal'', ''stone'', ''bone'',
      ''ore'', ''shard'', ''scale'', ''cloth'', ''rope'', ''crystal'']"

text \<open>\<open>room.description or "Ein dunkler Raum"\<close>.\<close>

definition description_or_dark :: "room \<Rightarrow> string" where
  "description_or_dark r =
     (case description r of None \<Rightarrow> ''Ein dunkler Raum''
      | Some d \<Rightarrow> if d = [] then ''Ein dunkler Raum'' else d)"

definition generate_crafted :: "string \<Rightarrow> room \<Rightarrow> string \<Rightarrow> ai_service \<Rightarrow> item option" where
  "generate_crafted action r theme_name ai =
     (let from_action = filter (\<lambda>keyword. str_in keyword (lower action)) material_keywords;
          from_room =
            (case description r of
               None \<Rightarrow> []
             | Some d \<Rightarrow> filter (\<lambda>keyword. str_in keyword (lower d) \<and> keyword \<notin> set from_action)
                           material_keywords)
      in generate_crafted_item ai action (from_action @ from_room) (description_or_dark r)
           theme_name)"

definition search_keywords :: "string list" where
  "search_keywords = [''untersuche'', ''durchsuche'', ''suche'', ''inspect'', ''search'']"

text \<open>
  The test of step 4c whether the target of a taking action comes from the description
  (a target word longer than three letters occurs in the lowercased description) or is
  the assigned object.
\<close>

definition is_from_description :: "string \<Rightarrow> room \<Rightarrow> bool" where
  "is_from_description tgt r =
     ((case description r of
         None \<Rightarrow> False
       | Some d \<Rightarrow> d \<noteq> [] \<and> list_ex (\<lambda>w. str_in w (lower d)) (target_words tgt))
      \<or> target_matches_assigned tgt (assigned_object r))"

text \<open>
  \<open>Player.equip_item\<close>.  The item objects of the equipment are the objects of the
  inventory, so the flag \<open>equipped\<close> changes in both; the model finds the object in the
  inventory again as the entries equal to it.
\<close>

definition equip_item :: "player \<Rightarrow> item \<Rightarrow> bool \<times> player" where
  "equip_item p it =
     (let slot = item_type_value (item_type it)
      in if it \<notin> set (inventory p) then (False, p)
         else
           (case map_of (equipment p) slot of
              None \<Rightarrow> (False, p)
            | Some current \<Rightarrow>
                (if (case current of None \<Rightarrow> False | Some c \<Rightarrow> is_curse c) then (False, p)
                 else
                   (True,
                    p\<lparr>inventory :=
                         map (\<lambda>x. if x = it then x\<lparr>equipped := True\<rparr>
                                   else if Some x = current then x\<lparr>equipped := False\<rparr> else x)
                           (inventory p),
                       equipment :=
                         map (\<lambda>(k, v). if k = slot then (k, Some (it\<lparr>equipped := True\<rparr>))
                                        else (k, v))
                           (equipment p)\<rparr>))))"

text \<open>
  The special case \<open>equip\<close> of \<open>resolve_free_action\<close>, lines 1002 to 1138.
  \<open>intent.get('target', '').lower()\<close> raises for the target \<open>null\<close>.  (The message for a
  cursed item starts in the source with a sign outside the modelled code points, which is
  left out.)
\<close>

definition resolve_equip :: "intent \<Rightarrow> player \<Rightarrow> py_error + (result \<times> player)" where
  "resolve_equip i p =
     (case target i of
        None \<Rightarrow> Inl (AttributeError ''lower'')
      | Some tgt \<Rightarrow>
         (let target_name = lower tgt
          in case find (\<lambda>it. str_in target_name (lower (item_name it)) \<or>
                              str_in target_name (lower (item_id it))) (inventory p) of
               None \<Rightarrow>
                 Inr (rejected_result
                        (''Du hast '' @ [CHR 0x27] @ target_name @ [CHR 0x27] @
                         '' nicht im Inventar.'') i, p)
             | Some target_item \<Rightarrow>
                (if item_type_value (item_type target_item) \<notin>
                      set [''weapon'', ''armor'', ''ring'', ''head'']
                 then Inr (rejected_result
                             (item_name target_item @ '' kann nicht angelegt werden (Typ: '' @
                              item_type_value (item_type target_item) @ '').'') i, p)
                 else
                   (case (case map_of (equipment p) (item_type_value (item_type target_item)) of
                            Some (Some c) \<Rightarrow> if is_curse c then Some c else None
                          | _ \<Rightarrow> None) of
                      Some cursed \<Rightarrow>
                        Inr (rejected_result
                               (item_name cursed @
                                '' ist verflucht und kann nicht abgelegt werden! Du brauchst einen ''
                                @ ''Priester oder Einsiedler, um den Fluch zu brechen.'') i, p)
                    | None \<Rightarrow>
                       (let (ok, p1) = equip_item p target_item
                        in if ok then
                             Inr ((rejected_result [] i)
                                    \<lparr>res_success := True, res_rejected := False,
                                     rejection_reason := None, res_plausibility := 1,
                                     equipped_item := Some (target_item\<lparr>equipped := True\<rparr>)\<rparr>,
                                  p1)
                           else Inr (rejected_result
                                       (''Konnte '' @ item_name target_item @ '' nicht anlegen.'')
                                       i, p1))))))"

text \<open>
  \<open>resolve_free_action(action, player, room, game, ai_service)\<close>: the result, and the
  player, the room and the random source after it.  \<open>intent['action_type']\<close>,
  \<open>intent['method']\<close> and \<open>intent['plausibility']\<close> raise \<open>KeyError\<close> for an absent key,
  \<open>game.theme\<close> raises for the game \<open>None\<close>.  (\<open>validate\<close> raises nothing on the modelled
  values, so the handler of lines 949 to 972 is not reached.)
\<close>

definition resolve_free_action ::
  "string \<Rightarrow> player \<Rightarrow> room \<Rightarrow> game_info option \<Rightarrow> ai_service \<Rightarrow> rng
     \<Rightarrow> py_error + (result \<times> player \<times> room \<times> rng)" where
  "resolve_free_action action p r game ai g =
     (let i = interpretation_stage ai action p r game
      in case validate i p r of
           Denied reason \<Rightarrow> Inr (rejected_result reason i, p, r, g)
         | Allowed \<Rightarrow>
            (if action_type i = Some ''equip'' then
               (case resolve_equip i p of
                  Inl e \<Rightarrow> Inl e
                | Inr (res, p1) \<Rightarrow> Inr (res, p1, r, g))
             else if action_type i = Some ''attempt_magic'' then
               (case resolve_magic_attempt action i p r (evaluate_magic ai) g of
                  Inl e \<Rightarrow> Inl e
                | Inr (mres, p1, r1, g1) \<Rightarrow>
                    Inr (\<lparr>res_success = mr_success mres, res_rejected = False,
                          rejection_reason = None, res_attribute = Some ''intelligence'',
                          res_attribute_value = intelligence (player_attributes p1),
                          res_difficulty = (case mr_difficulty mres of None \<Rightarrow> 15 | Some d \<Rightarrow> d),
                          res_plausibility =
                            (case mr_plausibility mres of None \<Rightarrow> 0.1 | Some q \<Rightarrow> q),
                          res_roll = (case mr_roll mres of None \<Rightarrow> 0 | Some n \<Rightarrow> n),
                          res_total = (case mr_total mres of None \<Rightarrow> 0 | Some n \<Rightarrow> n),
                          res_intent = i, res_impact = mr_impact mres,
                          equipped_item = None, gift_discovered = False, gift_bonus = 0,
                          res_magic_data = mr_magic_data mres,
                          spell_discovered = mr_spell_discovered mres,
                          known_spell_cast =
                            (case mr_known_spell_cast mres of None \<Rightarrow> False | Some b \<Rightarrow> b)\<rparr>,
                         p1, r1, g1))
             else
               (case action_type i of
                  None \<Rightarrow> Inl (KeyError ''action_type'')
                | Some act_type \<Rightarrow>
               (case action_method i of
                  None \<Rightarrow> Inl (KeyError ''method'')
                | Some method_text \<Rightarrow>
               (case get_attribute (player_attributes p)
                       (map_action_to_attribute act_type method_text) of
                  Inl e \<Rightarrow> Inl e
                | Inr attr_value \<Rightarrow>
               (case plausibility i of
                  None \<Rightarrow> Inl (KeyError ''plausibility'')
                | Some plaus \<Rightarrow>
                  (let attr_name = map_action_to_attribute act_type method_text;
                       dc = action_difficulty plaus (any_keyword_in search_keywords (lower action));
                       bonus = get_gift_bonus p (case attr_name of None \<Rightarrow> [] | Some a \<Rightarrow> a);
                       ((ok, rolled, tot), g1) = attribute_check attr_value dc False False bonus g;
                       (imp, g2) = determine_rewards ok tot dc plaus (Some act_type) (Some action) g1;
                       crafting = (ok \<and> is_crafting_action action method_text);
                       taking =
                         (ok \<and> act_type = ''interact_object'' \<and> is_taking method_text \<and>
                          (case target i of
                             None \<Rightarrow> False
                           | Some tgt \<Rightarrow> tgt \<noteq> [] \<and> is_from_description tgt r \<and>
                                         \<not> target_in_items tgt (loot r)))
                   in if (crafting \<or> taking) \<and> game = None
                      then Inl (AttributeError ''theme'')
                      else
                        (let theme_name = (case game of None \<Rightarrow> [] | Some gm \<Rightarrow> theme gm);
                             imp1 =
                               (if crafting
                                then (case generate_crafted action r theme_name ai of
                                        None \<Rightarrow> imp
                                      | Some it \<Rightarrow> imp\<lparr>impact_item := Some it\<rparr>)
                                else imp);
                             imp2 =
                               (if taking \<and> impact_item imp1 = None
                                then (case generate_crafted_item ai action
                                             [case target i of None \<Rightarrow> [] | Some tgt \<Rightarrow> tgt]
                                             (description_or_dark r) theme_name of
                                        None \<Rightarrow> imp1
                                      | Some it \<Rightarrow> imp1\<lparr>impact_item := Some it\<rparr>)
                                else imp1)
                         in Inr (\<lparr>res_success = ok, res_rejected = False,
                                   rejection_reason = None, res_attribute = attr_name,
                                   res_attribute_value = attr_value, res_difficulty = dc,
                                   res_plausibility = plaus, res_roll = rolled, res_total = tot,
                                   res_intent = i, res_impact = imp2,
                                   equipped_item = None,
                                   gift_discovered = (bonus > 0 \<and> player_gift p \<noteq> None),
                                   gift_bonus = bonus,
                                   res_magic_data = None, spell_discovered = False,
                                   known_spell_cast = False\<rparr>, p, r, g2)))))))))"

section \<open>The orchestrator (\<open>execute_free_action\<close>)\<close>

text \<open>
  The game object as far as the blocks below use it: the player, the room the player is
  in (\<open>game.dungeon.get_room(...)\<close>, changed in place) and the two fields that track
  repeated failures.  Log output is not modelled.

  \<open>execute_free_action\<close> is modelled by its blocks, each with the lines it covers: the
  failure tracking, the narration with its discoveries followed by the application of
  the impact, and the consumption of the components.  The blocks run in this order, after
  the early returns for a door action, a rejected result, an equip action and an attack
  on an unaware monster, and before the blocks for hidden keys, doors, treasure and NPC
  conversation.
\<close>

record game =
  game_player :: player
  game_room :: room
  last_failed_action :: string
  fail_count :: int

subsection \<open>Repeated failures\<close>

text \<open>
  Lines 1724 to 1747.  \<open>if target:\<close> holds for a target that is neither \<open>None\<close> nor the
  empty string.
\<close>

definition track_failure :: "string \<Rightarrow> result \<Rightarrow> game \<Rightarrow> game" where
  "track_failure action res gm =
     (if res_success res then gm\<lparr>last_failed_action := [], fail_count := 0\<rparr>
      else
        (let action_normalized = strip (lower action);
             gm1 = (if action_normalized = last_failed_action gm
                    then gm\<lparr>fail_count := fail_count gm + 1\<rparr>
                    else gm\<lparr>last_failed_action := action_normalized, fail_count := 1\<rparr>)
         in if fail_count gm1 \<ge> 3 then
              (case target (res_intent res) of
                 None \<Rightarrow> gm1
               | Some tgt \<Rightarrow>
                   (if tgt \<noteq> [] then
                      gm1\<lparr>game_room := (game_room gm1)\<lparr>destroyed_objects :=
                                            destroyed_objects (game_room gm1) @ [tgt]\<rparr>,
                          last_failed_action := [], fail_count := 0\<rparr>
                    else gm1))
            else gm1))"

subsection \<open>Narration and impact\<close>

text \<open>
  A JSON value as \<open>json.loads\<close> returns it (numbers are integers in the model; an object
  holds its entries in order, with distinct keys).
\<close>

datatype json =
  JNull | JBool bool | JInt int | JStr string | JList "json list" | JObject "(string \<times> json) list"

text \<open>The truth value of a JSON value in \<open>if x:\<close>, and the elements a \<open>for\<close> loop over it visits.\<close>

fun truthy :: "json \<Rightarrow> bool" where
  "truthy JNull = False"
| "truthy (JBool b) = b"
| "truthy (JInt n) = (n \<noteq> 0)"
| "truthy (JStr s) = (s \<noteq> [])"
| "truthy (JList xs) = (xs \<noteq> [])"
| "truthy (JObject kvs) = (kvs \<noteq> [])"

fun iterate :: "json \<Rightarrow> py_error + json list" where
  "iterate (JList xs) = Inr xs"
| "iterate (JStr s) = Inr (map (\<lambda>c. JStr [c]) s)"
| "iterate (JObject kvs) = Inr (map (\<lambda>(k, v). JStr k) kvs)"
| "iterate JNull = Inl (TypeError ''NoneType object is not iterable'')"
| "iterate (JBool b) = Inl (TypeError ''bool object is not iterable'')"
| "iterate (JInt n) = Inl (TypeError ''int object is not iterable'')"

text \<open>
  \<open>int(x)\<close> on a JSON value.  For a string Python accepts an optional sign and decimal
  digits, with single underscores between digits and whitespace around.
\<close>

definition is_digit :: "char \<Rightarrow> bool" where
  "is_digit c = (48 \<le> (of_char c :: nat) \<and> (of_char c :: nat) \<le> 57)"

definition digits_value :: "string \<Rightarrow> nat" where
  "digits_value ds = foldl (\<lambda>acc c. 10 * acc + ((of_char c :: nat) - 48)) 0 ds"

definition int_of_string :: "string \<Rightarrow> int option" where
  "int_of_string s =
     (let t = strip s;
          negative = (t \<noteq> [] \<and> hd t = CHR ''-'');
          body = (if t \<noteq> [] \<and> (hd t = CHR ''-'' \<or> hd t = CHR ''+'') then tl t else t)
      in if body \<noteq> [] \<and> list_all (\<lambda>c. is_digit c \<or> c = CHR ''_'') body \<and>
            is_digit (hd body) \<and> is_digit (last body) \<and> \<not> str_in ''__'' body
         then Some ((if negative then -1 else 1) * int (digits_value (filter is_digit body)))
         else None)"

fun int_of_json :: "json \<Rightarrow> int option" where
  "int_of_json (JInt n) = Some n"
| "int_of_json (JBool b) = Some (if b then 1 else 0)"
| "int_of_json (JStr s) = int_of_string s"
| "int_of_json JNull = None"
| "int_of_json (JList xs) = None"
| "int_of_json (JObject kvs) = None"

text \<open>
  The dictionary \<open>narrate_action_result\<close> returns.  Its early returns and its handler for
  exceptions return \<open>default_narration\<close>.  After a successful \<open>json.loads\<close> (lines 1029 to
  1037, \<open>narrate_parsed\<close>) the gold is converted by \<open>int\<close>, and the other three entries are
  what \<open>parsed.get\<close> gives, unchecked; \<open>parsed.get\<close> raises for a value that is no object,
  and \<open>int\<close> raises for a value it does not convert: both end in the handler.  (The
  prompt, the retries and the scan of a text that is no JSON are not modelled: the
  orchestrator below takes the returned dictionary as its input.)
\<close>

record narration_result =
  nr_narrative :: json
  nr_discovered_gold :: int
  nr_discovered_items :: json
  nr_discovered_objects :: json

definition default_narration :: narration_result where
  "default_narration =
     \<lparr>nr_narrative = JStr [], nr_discovered_gold = 0, nr_discovered_items = JList [],
      nr_discovered_objects = JList []\<rparr>"

definition json_get :: "(string \<times> json) list \<Rightarrow> string \<Rightarrow> json \<Rightarrow> json" where
  "json_get kvs k dflt = (case map_of kvs k of None \<Rightarrow> dflt | Some v \<Rightarrow> v)"

definition narrate_parsed :: "json \<Rightarrow> narration_result" where
  "narrate_parsed parsed =
     (case parsed of
        JObject kvs \<Rightarrow>
          (case int_of_json (json_get kvs ''discovered_gold'' (JInt 0)) of
             None \<Rightarrow> default_narration
           | Some n \<Rightarrow>
               \<lparr>nr_narrative = json_get kvs ''narrative'' (JStr []),
                nr_discovered_gold = n,
                nr_discovered_items = json_get kvs ''discovered_items'' (JList []),
                nr_discovered_objects = json_get kvs ''discovered_objects'' (JList [])\<rparr>)
      | _ \<Rightarrow> default_narration)"

definition talk_keywords :: "string list" where
  "talk_keywords =
     [''sprich'', ''spreche'', ''rede'', ''frag'', ''frage'', ''talk'', ''speak'', ''ask'', ''sag'']"

definition is_npc_conversation :: "string \<Rightarrow> room \<Rightarrow> bool" where
  "is_npc_conversation action r =
     (case room_npc r of
        None \<Rightarrow> False
      | Some n \<Rightarrow> npc_alive n \<and> any_keyword_in talk_keywords (lower action))"

definition currency_keywords :: "string list" where
  "currency_keywords =
     [''m'' @ [CHR 0xFC] @ ''nze'', ''coin'', ''gold'', ''silber'', ''kupfer'', ''geld'', ''money'']"

text \<open>
  An error of a block comes with the game and the random source at the moment it is
  raised: what the statements before it did stays done.
\<close>

type_synonym 'a raised = "(py_error \<times> game \<times> rng) + 'a"

text \<open>
  The loop over \<open>narration_result['discovered_items']\<close>, lines 1840 to 1862.
  \<open>item_name.lower()\<close> raises \<open>AttributeError\<close> for an element that is no string.
\<close>

fun discover_items :: "json list \<Rightarrow> game \<Rightarrow> rng \<Rightarrow> (game \<times> rng) raised" where
  "discover_items [] gm g = Inr (gm, g)"
| "discover_items (x # xs) gm g =
     (case x of
        JStr nm \<Rightarrow>
          (if any_keyword_in currency_keywords (lower nm) then
             (let (gold_amount, g1) = randint 5 20 g
              in discover_items xs
                   (gm\<lparr>game_player := (game_player gm)\<lparr>gold := gold (game_player gm) + gold_amount\<rparr>\<rparr>)
                   g1)
           else
             discover_items xs
               (gm\<lparr>game_room := (game_room gm)\<lparr>loot := loot (game_room gm) @
                    [\<lparr>item_id = ''discovered_'' @ str_of_nat (length (loot (game_room gm))) @ ''_'' @
                                map (\<lambda>c. if c = CHR '' '' then CHR ''_'' else c) (lower nm),
                      item_name = nm,
                      item_description = ''Du hast '' @ nm @ '' entdeckt.'',
                      item_type = MATERIAL, is_curse = False, equipped = False,
                      key_id = None\<rparr>]\<rparr>\<rparr>)
               g)
      | _ \<Rightarrow> Inl (AttributeError ''lower'', gm, g))"

text \<open>
  The loop over \<open>narration_result['discovered_objects']\<close>, lines 1868 to 1871.  The room's
  list is declared \<open>List[str]\<close>; an element that is no string would be appended to it all
  the same, which the model marks with \<open>OutsideModel\<close>.
\<close>

fun discover_objects :: "json list \<Rightarrow> game \<Rightarrow> rng \<Rightarrow> (game \<times> rng) raised" where
  "discover_objects [] gm g = Inr (gm, g)"
| "discover_objects (x # xs) gm g =
     (case x of
        JStr nm \<Rightarrow>
          discover_objects xs
            (if nm \<in> set (discovered_objects (game_room gm)) then gm
             else gm\<lparr>game_room := (game_room gm)\<lparr>discovered_objects :=
                                     discovered_objects (game_room gm) @ [nm]\<rparr>\<rparr>)
            g
      | _ \<Rightarrow> Inl (OutsideModel ''discovered_objects'', gm, g))"

text \<open>Lines 1826 to 1871: what the orchestrator does with the narration result.\<close>

definition process_discoveries :: "narration_result \<Rightarrow> game \<Rightarrow> rng \<Rightarrow> (game \<times> rng) raised" where
  "process_discoveries nr gm g =
     (let gm1 = (if nr_discovered_gold nr > 0
                 then gm\<lparr>game_player := (game_player gm)\<lparr>gold :=
                              gold (game_player gm) + nr_discovered_gold nr\<rparr>\<rparr>
                 else gm)
      in case (if truthy (nr_discovered_items nr)
               then (case iterate (nr_discovered_items nr) of
                       Inl e \<Rightarrow> Inl (e, gm1, g)
                     | Inr xs \<Rightarrow> discover_items xs gm1 g)
               else Inr (gm1, g)) of
           Inl e \<Rightarrow> Inl e
         | Inr (gm2, g2) \<Rightarrow>
             (if truthy (nr_discovered_objects nr)
              then (case iterate (nr_discovered_objects nr) of
                      Inl e \<Rightarrow> Inl (e, gm2, g2)
                    | Inr xs \<Rightarrow> discover_objects xs gm2 g2)
              else Inr (gm2, g2)))"

text \<open>\<open>check_level_up\<close> of \<open>game/combat.py\<close> and the block "Apply impact", lines 1882 to 1907.\<close>

definition check_level_up :: "player \<Rightarrow> player" where
  "check_level_up p =
     (let xp_needed = 100 * (level p * level p)
      in if xp p \<ge> xp_needed
         then p\<lparr>level := level p + 1, xp := xp p - xp_needed, max_hp := max_hp p + 10,
                hp := max_hp p + 10, attack := attack p + 2, defense := defense p + 1\<rparr>
         else p)"

definition apply_impact :: "impact \<Rightarrow> player \<Rightarrow> player" where
  "apply_impact imp p =
     (let p1 = (if impact_hp imp \<noteq> 0
                then p\<lparr>hp := max 0 (min (max_hp p) (hp p + impact_hp imp))\<rparr> else p);
          p2 = (if impact_gold imp > 0 then p1\<lparr>gold := gold p1 + impact_gold imp\<rparr> else p1);
          p3 = (if impact_xp imp > 0
                then check_level_up (p2\<lparr>xp := xp p2 + impact_xp imp\<rparr>) else p2)
      in case impact_item imp of
           None \<Rightarrow> p3
         | Some it \<Rightarrow> p3\<lparr>inventory := inventory p3 @ [it]\<rparr>)"

text \<open>
  Lines 1798 to 1907: the narration, unless the action is an NPC conversation or the
  service is not available, and then the impact.  \<open>nr\<close> is what
  \<open>ai.narrate_action_result(action, result, story_context)\<close> returns.  The discoveries are
  processed inside \<open>try: ... finally: game.stop_loading()\<close> without a handler, so an
  exception there leaves \<open>execute_free_action\<close>, and the lines that apply the impact are
  not reached.
\<close>

definition narrate_and_apply_impact ::
  "string \<Rightarrow> result \<Rightarrow> bool \<Rightarrow> narration_result \<Rightarrow> game \<Rightarrow> rng \<Rightarrow> (game \<times> rng) raised" where
  "narrate_and_apply_impact action res ai_is_available nr gm g =
     (case (if \<not> is_npc_conversation action (game_room gm) \<and> ai_is_available
            then process_discoveries nr gm g else Inr (gm, g)) of
        Inl e \<Rightarrow> Inl e
      | Inr (gm1, g1) \<Rightarrow>
          Inr (gm1\<lparr>game_player := apply_impact (res_impact res) (game_player gm1)\<rparr>, g1))"

subsection \<open>Components\<close>

text \<open>
  Lines 1909 to 1919.  For one component the loop removes the first item of the
  inventory whose lowercased name contains the lowercased component, and stops.
\<close>

fun remove_first :: "('a \<Rightarrow> bool) \<Rightarrow> 'a list \<Rightarrow> 'a list" where
  "remove_first P [] = []"
| "remove_first P (x # xs) = (if P x then xs else x # remove_first P xs)"

definition component_matches :: "string \<Rightarrow> item \<Rightarrow> bool" where
  "component_matches component_name it = str_in (lower component_name) (lower (item_name it))"

definition consume_components :: "result \<Rightarrow> player \<Rightarrow> player" where
  "consume_components res p =
     (if res_success res
      then p\<lparr>inventory :=
               foldl (\<lambda>iv component_name. remove_first (component_matches component_name) iv)
                 (inventory p) (intent_components (res_intent res))\<rparr>
      else p)"

section \<open>Concrete states\<close>

text \<open>
  A player, a room and an intent in which the fields that vary between the examples are
  parameters; the theorems below are run on them.
\<close>

definition ex_item :: "string \<Rightarrow> item" where
  "ex_item n = \<lparr>item_id = ''i1'', item_name = n, item_description = [], item_type = MATERIAL,
     is_curse = False, equipped = False, key_id = None\<rparr>"

definition ex_player :: "item list \<Rightarrow> player" where
  "ex_player iv = \<lparr>player_name = ''Hero'', race = ''Mensch'',
     player_attributes =
       \<lparr>strength = 10, dexterity = 10, wisdom = 10, intelligence = 10, vitality = 10\<rparr>,
     hp = 20, max_hp = 20, attack = 5, defense = 3, gold = 0, xp = 0, level = 1, buffs = [],
     inventory = iv,
     equipment = [(''weapon'', None), (''armor'', None), (''ring'', None), (''head'', None)],
     player_grimoire = \<lparr>spells = [], total_discoveries = 0, current_run_discoveries = 0\<rparr>,
     player_gift = None, morality = 0\<rparr>"

definition ex_room :: "string option \<Rightarrow> item list \<Rightarrow> string list \<Rightarrow> room" where
  "ex_room desc lt destroyed = \<lparr>room_kind = EMPTY, description = desc, room_monster = None,
     room_npc = None, loot = lt, looted = False, destroyed_objects = destroyed,
     discovered_objects = [], assigned_object = None\<rparr>"

definition ex_intent :: "string option \<Rightarrow> string \<Rightarrow> string list \<Rightarrow> intent" where
  "ex_intent tgt m cs = \<lparr>action_type = Some ''interact_object'', target = tgt,
     action_method = Some m,
     plausibility = Some 0.5, valid = Some True, reason_if_invalid = None,
     components_used = Some cs\<rparr>"

definition flame_burst :: spell where
  "flame_burst = \<lparr>spell_name = ''Flame Burst'', effect_type = ''fire'', magnitude = ''moderate'',
     components = [''rubinstaub''], gesture = ''thrust upward'', words = ''ignis maxima'',
     spell_plausibility = 0.5, discovery_context = ''EMPTY - 1'', uses = 0\<rparr>"

definition ex_mage :: player where
  "ex_mage = (ex_player [ex_item ''rubinstaub''])\<lparr>player_grimoire :=
     \<lparr>spells = [flame_burst], total_discoveries = 1, current_run_discoveries = 1\<rparr>\<rparr>"

definition ex_cast :: intent where
  "ex_cast = \<lparr>action_type = Some ''attempt_magic'', target = None,
     action_method = Some (''thrust upward, say '' @ [CHR 0x27] @ ''Ignis Maxima'' @ [CHR 0x27]),
     plausibility = Some 0.7, valid = Some True, reason_if_invalid = None,
     components_used = Some [''rubinstaub'']\<rparr>"

text \<open>
  The backend behaviours named by claim C1 besides unavailability, for a response text:
  the empty response, a text that is no JSON, and a JSON object without one of the
  required keys.
\<close>

definition backend_misbehaves :: "ai_service \<Rightarrow> string \<Rightarrow> bool" where
  "backend_misbehaves ai response =
     (response = [] \<or>
      (case json_loads ai response of
         DecodeError \<Rightarrow> True
       | Object i \<Rightarrow> action_type i = None \<or> valid i = None \<or> plausibility i = None
       | Other reason \<Rightarrow> False))"

definition ex_ai :: "bool \<Rightarrow> string \<Rightarrow> loaded \<Rightarrow> ai_service" where
  "ex_ai avail response parsed =
     \<lparr>ai_available = avail, interpreter_generate = (\<lambda>a p r t. response),
      json_loads = (\<lambda>s. parsed), evaluate_magic = (\<lambda>c g w e. None),
      generate_crafted_item = (\<lambda>a m d t. None)\<rparr>"

definition ex_game :: "player \<Rightarrow> room \<Rightarrow> game" where
  "ex_game p r = \<lparr>game_player = p, game_room = r, last_failed_action = [], fail_count = 0\<rparr>"

text \<open>A result that was not rejected, with the given success, intent and impact.\<close>

definition ex_result :: "bool \<Rightarrow> intent \<Rightarrow> impact \<Rightarrow> result" where
  "ex_result ok i imp =
     (rejected_result [] i)\<lparr>res_success := ok, res_rejected := False, rejection_reason := None,
        res_attribute := Some ''wisdom'', res_attribute_value := 10, res_difficulty := 12,
        res_impact := imp\<rparr>"

text \<open>
  Two answers of the narration backend, as parsed JSON: the discovered items as a list of
  names, and as a list of objects with a name.
\<close>

definition narration_names :: json where
  "narration_names =
     JObject [(''narrative'', JStr ''Du findest eine alte Karte.''),
              (''discovered_gold'', JInt 0),
              (''discovered_items'', JList [JStr ''Alte Karte'']),
              (''discovered_objects'', JList [])]"

definition narration_objects :: json where
  "narration_objects =
     JObject [(''narrative'', JStr ''Du findest eine alte Karte.''),
              (''discovered_gold'', JInt 0),
              (''discovered_items'', JList [JObject [(''name'', JStr ''Alte Karte'')]]),
              (''discovered_objects'', JList [])]"

definition smash :: "string option \<Rightarrow> result" where
  "smash tgt = ex_result False (ex_intent tgt ''smash it'' []) no_impact"

text \<open>
  A resolved action that names components, an inventory with two items whose names contain
  \<open>herb\<close>, and a whole resolution in which the interpreter names one component twice and
  the roll is a 20.
\<close>

definition brew :: "bool \<Rightarrow> string list \<Rightarrow> result" where
  "brew ok cs = ex_result ok (ex_intent None ''rub them on the wound'' cs) no_impact"

definition herb_pouch :: "item list" where
  "herb_pouch = [ex_item ''Sword'', ex_item ''Healing Herb'', ex_item ''Herb'']"

definition use_the_herbs :: "py_error + (result \<times> player \<times> room \<times> rng)" where
  "use_the_herbs =
     resolve_free_action ''use the herbs'' (ex_player [ex_item ''Herb'']) (ex_room None [] []) None
       (ex_ai True ''{}'' (Object (ex_intent None ''rub them on the wound'' [''Herb'', ''Herb''])))
       (const_rng 19)"

text \<open>A successful search whose precomputed impact is ten experience points.\<close>

definition found_map :: result where
  "found_map = ex_result True (ex_intent (Some ''shelf'') ''search it'' [])
                 (no_impact\<lparr>impact_xp := 10\<rparr>)"

section \<open>Properties\<close>

subsection \<open>Strings and the random source\<close>

lemma str_in_iff_sublist: "str_in a b \<longleftrightarrow> (\<exists>p s. b = p @ a @ s)"
proof (induction b)
  case Nil
  then show ?case by auto
next
  case (Cons c cs)
  show ?case
  proof
    assume "str_in a (c # cs)"
    then consider "prefix a (c # cs)" | "str_in a cs" by auto
    then show "\<exists>p s. c # cs = p @ a @ s"
    proof cases
      case 1
      then obtain s where "c # cs = a @ s" by (auto simp: prefix_def)
      then have "c # cs = [] @ a @ s" by simp
      then show ?thesis by blast
    next
      case 2
      with Cons.IH obtain p s where "cs = p @ a @ s" by blast
      then have "c # cs = (c # p) @ a @ s" by simp
      then show ?thesis by blast
    qed
  next
    assume "\<exists>p s. c # cs = p @ a @ s"
    then obtain p s where ps: "c # cs = p @ a @ s" by blast
    show "str_in a (c # cs)"
    proof (cases p)
      case Nil
      with ps have "prefix a (c # cs)" by (simp add: prefix_def)
      then show ?thesis by simp
    next
      case (Cons q qs)
      with ps have "cs = qs @ a @ s" by simp
      with Cons.IH have "str_in a cs" by blast
      then show ?thesis by simp
    qed
  qed
qed

lemma str_in_refl: "str_in a a"
proof -
  have "a = [] @ a @ []" by simp
  then show ?thesis unfolding str_in_iff_sublist by blast
qed

lemma str_in_Nil: "str_in [] b"
proof -
  have "b = [] @ [] @ b" by simp
  then show ?thesis unfolding str_in_iff_sublist by blast
qed

lemma lower_char_idem: "lower_char (lower_char c) = lower_char c"
  by (simp add: lower_char_def Let_def)

lemma lower_idem: "lower (lower s) = lower s"
  by (simp add: lower_def lower_char_idem)

lemma length_lower: "length (lower s) = length s"
  by (simp add: lower_def)

lemma advance_const_rng [simp]: "advance (const_rng k) = const_rng k"
  by (simp add: advance_def const_rng_def)

lemma const_rng_apply [simp]: "const_rng k n = k"
  by (simp add: const_rng_def)

lemma randint_range:
  assumes "lo \<le> hi"
  shows "lo \<le> fst (randint lo hi g) \<and> fst (randint lo hi g) \<le> hi"
proof -
  have pos: "0 < nat (hi - lo + 1)" using assms by simp
  have "g 0 mod nat (hi - lo + 1) < nat (hi - lo + 1)"
    using pos by (rule mod_less_divisor)
  then have "int (g 0 mod nat (hi - lo + 1)) < hi - lo + 1"
    using assms by linarith
  then show ?thesis by (simp add: randint_def)
qed

lemma d20_range: "1 \<le> fst (d20 g) \<and> fst (d20 g) \<le> 20"
  unfolding d20_def roll_def by (rule randint_range) simp

subsection \<open>Attribute checks\<close>

text \<open>
  Claim C9.  Without advantage and disadvantage \<open>attribute_check\<close> makes one roll \<open>r\<close> of
  the d20 and returns that roll, the total \<open>r + (a - 10) div 2 + b\<close> (floor division: the
  attribute 9 has the modifier \<open>-1\<close>) and success exactly when the total reaches the
  difficulty; the roll is between 1 and 20 and is the next element of the injected random
  sequence, so the result is determined by that sequence.  With attribute 14, difficulty
  10 and the roll 10 the modifier is 2, the total 12 and the check succeeds.
\<close>

theorem attribute_check_plain:
  "attribute_check a d False False b g =
     ((d \<le> fst (d20 g) + (a - 10) div 2 + b,
       fst (d20 g),
       fst (d20 g) + (a - 10) div 2 + b),
      snd (d20 g))
   \<and> 1 \<le> fst (d20 g) \<and> fst (d20 g) \<le> 20
   \<and> fst (d20 g) = 1 + int (g 0 mod 20)
   \<and> ((9::int) - 10) div 2 = -1
   \<and> (fst (d20 g) = 10 \<longrightarrow>
        attribute_check 14 10 False False 0 g = ((True, 10, 12), snd (d20 g)))"
proof -
  have eq: "\<And>a d b. attribute_check a d False False b g =
     ((d \<le> fst (d20 g) + (a - 10) div 2 + b,
       fst (d20 g),
       fst (d20 g) + (a - 10) div 2 + b),
      snd (d20 g))"
    by (simp add: attribute_check_def Let_def split: prod.splits)
  have r: "fst (d20 g) = 1 + int (g 0 mod 20)"
    by (simp add: d20_def roll_def randint_def)
  have ex: "fst (d20 g) = 10 \<longrightarrow>
        attribute_check 14 10 False False 0 g = ((True, 10, 12), snd (d20 g))"
    by (simp add: eq)
  show ?thesis using eq d20_range r ex by simp
qed

theorem attribute_check_plain_witness:
  "attribute_check 14 10 False False 0 (const_rng 9) = ((True, 10, 12), const_rng 9)
   \<and> attribute_check 9 10 False False 0 (const_rng 9) = ((False, 10, 9), const_rng 9)"
proof -
  have r: "fst (d20 (const_rng 9)) = 10" "snd (d20 (const_rng 9)) = const_rng 9"
    by (simp_all add: d20_def roll_def randint_def)
  show ?thesis
    using attribute_check_plain [of 14 10 0 "const_rng 9"]
          attribute_check_plain [of 9 10 0 "const_rng 9"] r
    by simp
qed

subsection \<open>Rewards\<close>

lemma py_int_mono:
  assumes "x \<le> y"
  shows "py_int x \<le> py_int y"
proof (cases "0 \<le> x")
  case True
  with assms have "0 \<le> y" by simp
  with True assms show ?thesis by (simp add: py_int_def floor_mono)
next
  case False
  show ?thesis
  proof (cases "0 \<le> y")
    case True
    have a: "\<lceil>x\<rceil> \<le> 0" using False by (simp add: ceiling_le_zero)
    have b: "0 \<le> \<lfloor>y\<rfloor>" using True by simp
    have "py_int x = \<lceil>x\<rceil>" "py_int y = \<lfloor>y\<rfloor>"
      using False True by (simp_all add: py_int_def)
    with a b show ?thesis by linarith
  next
    case ny: False
    with False assms show ?thesis by (simp add: py_int_def ceiling_mono)
  qed
qed

lemma xp_success:
  "impact_xp (fst (determine_rewards True tot d p a t g)) =
     (if p \<ge> 0.8 then 0
      else if p \<ge> 0.6 then max 1 (d div 2)
      else d + ((tot - d) * 2) + py_int ((1 - p) * 10))"
  by (simp add: determine_rewards_def Let_def no_impact_def split: prod.splits)

lemma creative_difficulty:
  assumes "p < 0.6"
  shows "11 \<le> action_difficulty p s"
proof -
  have "(11::real) \<le> 20 - p * 15" using assms by simp
  then have "(11::int) \<le> \<lfloor>20 - p * 15\<rfloor>" by linarith
  then have "11 \<le> py_int (20 - p * 15)"
    by (simp add: py_int_def) linarith?
  then show ?thesis by (auto simp add: action_difficulty_def Let_def)
qed

lemma creativity_bonus_min:
  assumes "p < 0.6"
  shows "4 \<le> py_int ((1 - p) * 10)"
proof -
  have "(4::real) \<le> (1 - p) * 10" using assms by simp
  then have "(4::int) \<le> \<lfloor>(1 - p) * 10\<rfloor>" by linarith
  then show ?thesis by (simp add: py_int_def) linarith?
qed

text \<open>
  In the pipeline the difficulty is computed from the plausibility (\<open>action_difficulty\<close>,
  with or without the search floor), so an action of plausibility below 0.6 has a
  difficulty of at least 11, and the XP of a success does not grow with the plausibility.
\<close>

lemma xp_antitone_pipeline:
  assumes "p_low \<le> p_high"
      and "d = action_difficulty p_low s_low"
      and "d \<le> tot"
  shows "impact_xp (fst (determine_rewards True tot d p_high a_high t_high g_high))
         \<le> impact_xp (fst (determine_rewards True tot d p_low a_low t_low g_low))"
proof (cases "p_low < 0.6")
  case True
  then have "11 \<le> action_difficulty p_low s_low" by (rule creative_difficulty)
  with assms(2) have d: "11 \<le> d" by simp
  have cb: "4 \<le> py_int ((1 - p_low) * 10)" using True by (rule creativity_bonus_min)
  have mono: "py_int ((1 - p_high) * 10) \<le> py_int ((1 - p_low) * 10)"
    using assms(1) by (intro py_int_mono) simp
  show ?thesis
    unfolding xp_success using assms(1,3) d cb mono True by (auto simp: max_def)
next
  case False
  with assms(1) show ?thesis
    unfolding xp_success by (auto simp: max_def)
qed

text \<open>
  Claim C7, amended.  Two successful actions (\<open>roll_total >= difficulty\<close>) with the same
  total and the same difficulty, whatever the action types, action texts and random
  sources are: the action of lower plausibility gets at least the XP of the action of
  higher plausibility, across the branches at 0.8 and at 0.6, provided the difficulty is
  at least \<open>-3\<close> or the lower plausibility is at least 0.6 (no action in the creative
  branch).  Below \<open>-3\<close> the XP of the creative branch,
  \<open>difficulty + 2 * margin + creativity_bonus\<close>, can fall under the \<open>max(1, ...)\<close> of the
  easy branch.
\<close>

theorem determine_rewards_xp_antitone:
  assumes "p_low \<le> p_high"
      and "d \<le> tot"
      and "-3 \<le> d \<or> 0.6 \<le> p_low"
  shows "impact_xp (fst (determine_rewards True tot d p_high a_high t_high g_high))
         \<le> impact_xp (fst (determine_rewards True tot d p_low a_low t_low g_low))"
proof (cases "p_low < 0.6")
  case True
  with assms(3) have d: "-3 \<le> d" by simp
  have cb: "4 \<le> py_int ((1 - p_low) * 10)" using True by (rule creativity_bonus_min)
  have mono: "py_int ((1 - p_high) * 10) \<le> py_int ((1 - p_low) * 10)"
    using assms(1) by (intro py_int_mono) simp
  show ?thesis
    unfolding xp_success using assms(1,2) d cb mono True by (auto simp: max_def)
next
  case False
  with assms(1) show ?thesis
    unfolding xp_success by (auto simp: max_def)
qed

theorem determine_rewards_xp_antitone_witness:
  "impact_xp (fst (determine_rewards True 15 10 0.7 (Some ''interact_object'')
       (Some ''search the shelf'') (const_rng 0)))
     \<le> impact_xp (fst (determine_rewards True 15 10 0.3 (Some ''interact_object'')
       (Some ''search the shelf'') (const_rng 0)))
   \<and> impact_xp (fst (determine_rewards True 15 10 0.7 (Some ''interact_object'')
       (Some ''search the shelf'') (const_rng 0))) = 5
   \<and> impact_xp (fst (determine_rewards True 15 10 0.3 (Some ''interact_object'')
       (Some ''search the shelf'') (const_rng 0))) = 27
   \<and> impact_xp (fst (determine_rewards True (-10) (-10) 0.9 None None (const_rng 0)))
     \<le> impact_xp (fst (determine_rewards True (-10) (-10) 0.7 None None (const_rng 0)))"
proof -
  have h1: "(0.3::real) \<le> 0.7" by simp
  have h2: "(10::int) \<le> 15" by simp
  have h3: "-3 \<le> (10::int) \<or> 0.6 \<le> (0.3::real)" by simp
  have k1: "(0.7::real) \<le> 0.9" by simp
  have k2: "(-10::int) \<le> -10" by simp
  have k3: "-3 \<le> (-10::int) \<or> 0.6 \<le> (0.7::real)" by simp
  have v1: "impact_xp (fst (determine_rewards True 15 10 0.7 (Some ''interact_object'')
       (Some ''search the shelf'') (const_rng 0))) = 5"
    by (simp add: xp_success)
  have v2: "impact_xp (fst (determine_rewards True 15 10 0.3 (Some ''interact_object'')
       (Some ''search the shelf'') (const_rng 0))) = 27"
    by (simp add: xp_success py_int_def)
  from determine_rewards_xp_antitone [OF h1 h2 h3]
       determine_rewards_xp_antitone [OF k1 k2 k3] v1 v2
  show ?thesis by simp
qed

text \<open>
  Claim C7 as stated fails: at difficulty \<open>-10\<close> and total \<open>-10\<close> (margin 0) the success
  of plausibility 0.5 gets \<open>-10 + 0 + 5 = -5\<close> XP, and the success of plausibility 0.7
  gets \<open>max(1, -10 // 2) = 1\<close> XP.
\<close>

theorem negative_difficulty_xp_grows:
  "impact_xp (fst (determine_rewards True (-10) (-10) 0.5 None None (const_rng 0))) = -5
   \<and> impact_xp (fst (determine_rewards True (-10) (-10) 0.7 None None (const_rng 0))) = 1
   \<and> impact_xp (fst (determine_rewards True (-10) (-10) 0.5 None None (const_rng 0)))
       < impact_xp (fst (determine_rewards True (-10) (-10) 0.7 None None (const_rng 0)))"
  by (simp add: xp_success py_int_def)

subsection \<open>Known spells\<close>

lemma find_update_first:
  assumes "\<And>x. P (f x) = P x"
  shows "find P (update_first P f xs) = map_option f (find P xs)"
  using assms by (induction xs) auto

lemma spell_matches_uses [simp]:
  "spell_matches comps wds (sp\<lparr>uses := n\<rparr>) = spell_matches comps wds sp"
  by (simp add: spell_matches_def)

lemma find_spell_increment_uses:
  "find_spell (player_grimoire (increment_uses comps wds p)) comps wds
     = map_option (\<lambda>sp. sp\<lparr>uses := uses sp + 1\<rparr>) (find_spell (player_grimoire p) comps wds)"
  by (simp add: find_spell_def increment_uses_def find_update_first)

lemma resolve_known_spell:
  assumes "find_spell (player_grimoire p) (intent_components i) (spoken_words i) = Some sp"
  shows "resolve_magic_attempt action i p r ev g =
           Inr (cast_known_spell sp (intent_components i) (spoken_words i) p r g)"
  using assms by (simp add: resolve_magic_attempt_def Let_def)

text \<open>
  A successful cast of a known spell: the plausibility is \<open>min(0.95, p + 0.2)\<close>, the check
  is on the intelligence, the effect of the spell is applied and the counter has grown
  by one.
\<close>

lemma known_spell_successful_cast:
  assumes known: "find_spell (player_grimoire p) (intent_components i) (spoken_words i) = Some sp"
      and ok: "fst (fst (attribute_check (intelligence (player_attributes p))
                     (py_int (20 - min 0.95 (spell_plausibility sp + 0.2) * 15))
                     False False 0 g))"
  shows "\<exists>res p' r' g'.
           resolve_magic_attempt action i p r ev g = Inr (res, p', r', g')
           \<and> mr_success res
           \<and> mr_plausibility res = Some (min 0.95 (spell_plausibility sp + 0.2))
           \<and> (mr_impact res, p', r', g') =
                apply_spell_effect sp (increment_uses (intent_components i) (spoken_words i) p) r
                  (snd (attribute_check (intelligence (player_attributes p))
                     (py_int (20 - min 0.95 (spell_plausibility sp + 0.2) * 15))
                     False False 0 g))"
proof -
  let ?dc = "py_int (20 - min 0.95 (spell_plausibility sp + 0.2) * 15)"
  obtain b rolled tot g1 where ac:
    "attribute_check (intelligence (player_attributes p)) ?dc False False 0 g
       = ((b, rolled, tot), g1)"
    by (metis prod.exhaust)
  with ok have b by simp
  obtain imp p2 r2 g2 where ap:
    "apply_spell_effect sp (increment_uses (intent_components i) (spoken_words i) p) r g1
       = (imp, p2, r2, g2)"
    by (metis prod.exhaust)
  have "cast_known_spell sp (intent_components i) (spoken_words i) p r g =
          (\<lparr>mr_success = True,
            mr_magic_data = Some \<lparr>md_spell_name = Some (spell_name sp),
                  md_effect_type = Some (effect_type sp),
                  md_magnitude = Some (magnitude sp),
                  md_is_valid_attempt = Some True, md_is_discovery = Some False,
                  md_plausibility = Some (min 0.95 (spell_plausibility sp + 0.2)),
                  md_consequence = None\<rparr>,
            mr_spell_discovered = False,
            mr_known_spell_cast = Some True, mr_roll = Some rolled, mr_total = Some tot,
            mr_difficulty = Some ?dc,
            mr_plausibility = Some (min 0.95 (spell_plausibility sp + 0.2)),
            mr_impact = imp\<rparr>, p2, r2, g2)"
    using ac \<open>b\<close> ap by (simp add: cast_known_spell_def Let_def)
  with resolve_known_spell [OF known] ap ac show ?thesis by simp
qed

text \<open>
  Claim C4 and the code.  What the claim says of the plausibility, of the check on the
  intelligence, of the effect on success and of the backfire on failure holds.  But the
  counter \<open>uses\<close>, which \<open>models/grimoire.py\<close> documents as "How many times successfully
  cast", is incremented before the result of the check is looked at: a failed cast of a
  known spell (the check fails) returns no success and the impact of a backfire of 1 to 3
  HP and nothing else, leaves the room alone, and leaves the spell in the grimoire with
  its counter raised by one.
\<close>

theorem known_spell_failed_cast:
  assumes known: "find_spell (player_grimoire p) (intent_components i) (spoken_words i) = Some sp"
      and failed: "\<not> fst (fst (attribute_check (intelligence (player_attributes p))
                     (py_int (20 - min 0.95 (spell_plausibility sp + 0.2) * 15))
                     False False 0 g))"
  shows "\<exists>res p' g' n.
           resolve_magic_attempt action i p r ev g = Inr (res, p', r, g')
           \<and> \<not> mr_success res
           \<and> mr_impact res = \<lparr>impact_hp = - n, impact_gold = 0, impact_xp = 0, impact_item = None\<rparr>
           \<and> 1 \<le> n \<and> n \<le> 3
           \<and> mr_plausibility res = Some (min 0.95 (spell_plausibility sp + 0.2))
           \<and> hp p' = hp p \<and> inventory p' = inventory p
           \<and> find_spell (player_grimoire p') (intent_components i) (spoken_words i)
                = Some (sp\<lparr>uses := uses sp + 1\<rparr>)"
proof -
  let ?dc = "py_int (20 - min 0.95 (spell_plausibility sp + 0.2) * 15)"
  let ?comps = "intent_components i"
  let ?wds = "spoken_words i"
  obtain b rolled tot g1 where ac:
    "attribute_check (intelligence (player_attributes p)) ?dc False False 0 g
       = ((b, rolled, tot), g1)"
    by (metis prod.exhaust)
  with failed have nb: "\<not> b" by simp
  obtain n g2 where ri: "randint 1 3 g1 = (n, g2)" by (metis prod.exhaust)
  have rng: "1 \<le> n \<and> n \<le> 3"
    using randint_range [of 1 3 g1] ri by simp
  have fs: "find_spell (player_grimoire (increment_uses ?comps ?wds p)) ?comps ?wds
              = Some (sp\<lparr>uses := uses sp + 1\<rparr>)"
    using known by (simp add: find_spell_increment_uses)
  have "cast_known_spell sp ?comps ?wds p r g =
          (\<lparr>mr_success = False,
            mr_magic_data = Some \<lparr>md_spell_name = Some (spell_name sp),
                  md_effect_type = Some (effect_type sp),
                  md_magnitude = Some (magnitude sp),
                  md_is_valid_attempt = Some True, md_is_discovery = Some False,
                  md_plausibility = Some (min 0.95 (spell_plausibility sp + 0.2)),
                  md_consequence = None\<rparr>,
            mr_spell_discovered = False,
            mr_known_spell_cast = Some False, mr_roll = Some rolled, mr_total = Some tot,
            mr_difficulty = Some ?dc,
            mr_plausibility = Some (min 0.95 (spell_plausibility sp + 0.2)),
            mr_impact = no_impact\<lparr>impact_hp := - n\<rparr>\<rparr>, increment_uses ?comps ?wds p, r, g2)"
    using ac nb ri by (simp add: cast_known_spell_def Let_def)
  moreover have "hp (increment_uses ?comps ?wds p) = hp p"
    "inventory (increment_uses ?comps ?wds p) = inventory p"
    by (simp_all add: increment_uses_def)
  ultimately show ?thesis
    using rng fs resolve_known_spell [OF known] by (simp add: no_impact_def)
qed

theorem known_spell_failed_cast_witness:
  "\<exists>res p' g'.
     resolve_magic_attempt ''cast flame burst'' ex_cast ex_mage (ex_room None [] [])
        (\<lambda>c g w e. None) (const_rng 0) = Inr (res, p', ex_room None [] [], g')
     \<and> \<not> mr_success res
     \<and> uses flame_burst = 0
     \<and> find_spell (player_grimoire p') (intent_components ex_cast) (spoken_words ex_cast)
          = Some (flame_burst\<lparr>uses := 1\<rparr>)"
proof -
  have known: "find_spell (player_grimoire ex_mage) (intent_components ex_cast)
                 (spoken_words ex_cast) = Some flame_burst"
    by code_simp
  have failed: "\<not> fst (fst (attribute_check (intelligence (player_attributes ex_mage))
                     (py_int (20 - min 0.95 (spell_plausibility flame_burst + 0.2) * 15))
                     False False 0 (const_rng 0)))"
    by (simp add: attribute_check_def d20_def roll_def randint_def ex_mage_def ex_player_def
          flame_burst_def py_int_def Let_def)
  have z: "uses flame_burst = 0" by (simp add: flame_burst_def)
  from known_spell_failed_cast [OF known failed, of "''cast flame burst''" "ex_room None [] []"
         "\<lambda>c g w e. None"] z
  show ?thesis by auto
qed

subsection \<open>Interpretation and backend failures\<close>

lemma validate_invalid_intent: "validate (invalid_intent reason) p r = Denied reason"
  by (simp add: validate_def invalid_intent_def)

lemma validate_fallback_intent:
  "validate (fallback_intent action) p r =
     (case physics_stage (fallback_intent action) p of
        Some forbidden \<Rightarrow> Denied (''PHYSICS_VIOLATION: '' @ forbidden)
      | None \<Rightarrow> Allowed)"
  by (simp add: validate_def fallback_intent_def target_stage_def component_stage_def
        intent_components_def split: option.splits)

lemma interpret_misbehaving:
  assumes "ai_available ai"
      and "backend_misbehaves ai (interpreter_generate ai action p r tc)"
  shows "\<exists>reason. interpret_action ai action p r tc = invalid_intent reason"
  using assms
  by (auto simp add: interpret_action_def backend_misbehaves_def Let_def split: loaded.splits)

text \<open>
  Claim C1 and the code.  When the service is not available, \<open>resolve_free_action\<close> does
  not call the interpreter and goes on with the safe default intent, which the validator
  allows unless the action text itself names a forbidden method.  When the service is
  available and the backend returns the empty response, a text that is no JSON, or JSON
  without one of \<open>action_type\<close>, \<open>valid\<close>, \<open>plausibility\<close>, \<open>interpret_action\<close> returns
  the invalid intent \<open>{valid: False, reason_if_invalid: reason, plausibility: 0.0}\<close>.
  \<open>resolve_free_action\<close> substitutes the safe default under \<open>if not intent\<close>, after the
  comment \<open>Fallback if LLM not available or failed\<close>; the invalid intent is a dictionary
  that is not empty, so it is kept, and the action is rejected by the validator with
  that reason: for these three failures of the backend the code does not reach the safe
  default that the claim states and that its own fallback is there for.
\<close>

theorem backend_failure_intent:
  "(\<not> ai_available ai \<longrightarrow>
      interpretation_stage ai action p r game = fallback_intent action
      \<and> validate (fallback_intent action) p r =
          (case physics_stage (fallback_intent action) p of
             Some forbidden \<Rightarrow> Denied (''PHYSICS_VIOLATION: '' @ forbidden)
           | None \<Rightarrow> Allowed))
   \<and> (ai_available ai \<and>
       backend_misbehaves ai
         (interpreter_generate ai action p r
            (case game of
               None \<Rightarrow> ''Generic fantasy dungeon''
             | Some gm \<Rightarrow> if story_context gm \<noteq> [] then theme gm @ '': '' @ story_context gm
                          else theme gm)) \<longrightarrow>
       (\<exists>reason.
          interpretation_stage ai action p r game = invalid_intent reason
          \<and> interpretation_stage ai action p r game \<noteq> fallback_intent action
          \<and> resolve_free_action action p r game ai g
              = Inr (rejected_result reason (invalid_intent reason), p, r, g)))"
proof (intro conjI impI)
  assume "\<not> ai_available ai"
  then show "interpretation_stage ai action p r game = fallback_intent action"
    by (simp add: interpretation_stage_def)
next
  show "validate (fallback_intent action) p r =
          (case physics_stage (fallback_intent action) p of
             Some forbidden \<Rightarrow> Denied (''PHYSICS_VIOLATION: '' @ forbidden)
           | None \<Rightarrow> Allowed)"
    by (rule validate_fallback_intent)
next
  let ?tc = "(case game of
               None \<Rightarrow> ''Generic fantasy dungeon''
             | Some gm \<Rightarrow> if story_context gm \<noteq> [] then theme gm @ '': '' @ story_context gm
                          else theme gm)"
  assume a: "ai_available ai \<and> backend_misbehaves ai (interpreter_generate ai action p r ?tc)"
  then obtain reason where ia: "interpret_action ai action p r ?tc = invalid_intent reason"
    using interpret_misbehaving by blast
  with a have st: "interpretation_stage ai action p r game = invalid_intent reason"
    by (simp add: interpretation_stage_def Let_def)
  have ne: "invalid_intent reason \<noteq> fallback_intent action"
    by (simp add: invalid_intent_def fallback_intent_def)
  have "resolve_free_action action p r game ai g
          = Inr (rejected_result reason (invalid_intent reason), p, r, g)"
    by (simp add: resolve_free_action_def st validate_invalid_intent Let_def)
  with st ne show "\<exists>reason.
          interpretation_stage ai action p r game = invalid_intent reason
          \<and> interpretation_stage ai action p r game \<noteq> fallback_intent action
          \<and> resolve_free_action action p r game ai g
              = Inr (rejected_result reason (invalid_intent reason), p, r, g)"
    by auto
qed

theorem backend_failure_intent_witness:
  "interpretation_stage (ex_ai False [] DecodeError) ''hit the wall'' (ex_player [])
       (ex_room None [] []) None = fallback_intent ''hit the wall''
   \<and> validate (fallback_intent ''hit the wall'') (ex_player []) (ex_room None [] []) = Allowed
   \<and> (\<exists>reason.
         resolve_free_action ''hit the wall'' (ex_player []) (ex_room None [] []) None
           (ex_ai True ''I think you hit it.'' DecodeError) (const_rng 9)
         = Inr (rejected_result reason (invalid_intent reason),
                ex_player [], ex_room None [] [], const_rng 9))"
proof -
  let ?p = "ex_player []"
  let ?r = "ex_room None [] []"
  have u: "\<not> ai_available (ex_ai False [] DecodeError)" by (simp add: ex_ai_def)
  have ph: "physics_stage (fallback_intent ''hit the wall'') ?p = None" by code_simp
  have a: "ai_available (ex_ai True ''I think you hit it.'' DecodeError) \<and>
       backend_misbehaves (ex_ai True ''I think you hit it.'' DecodeError)
         (interpreter_generate (ex_ai True ''I think you hit it.'' DecodeError)
            ''hit the wall'' ?p ?r
            (case None of
               None \<Rightarrow> ''Generic fantasy dungeon''
             | Some gm \<Rightarrow> if story_context gm \<noteq> [] then theme gm @ '': '' @ story_context gm
                          else theme gm))"
    by (simp add: ex_ai_def backend_misbehaves_def)
  from backend_failure_intent [of "ex_ai False [] DecodeError" "''hit the wall''" ?p ?r None] u ph
  have 1: "interpretation_stage (ex_ai False [] DecodeError) ''hit the wall'' ?p ?r None
             = fallback_intent ''hit the wall''
           \<and> validate (fallback_intent ''hit the wall'') ?p ?r = Allowed"
    by simp
  from backend_failure_intent [of "ex_ai True ''I think you hit it.'' DecodeError"
         "''hit the wall''" ?p ?r None "const_rng 9"] a
  have 2: "\<exists>reason.
         resolve_free_action ''hit the wall'' ?p ?r None
           (ex_ai True ''I think you hit it.'' DecodeError) (const_rng 9)
         = Inr (rejected_result reason (invalid_intent reason), ?p, ?r, const_rng 9)"
    by blast
  from 1 2 show ?thesis by blast
qed

text \<open>
  The scenario of the specification for claim C1: with the generator returning \<open>''\<close>,
  \<open>interpret_action("hit the wall")\<close> is not the safe default intent but the invalid
  intent (no \<open>action_type\<close>, \<open>valid\<close> false, plausibility 0), and the pipeline ends in the
  rejection \<open>LLM returned empty response\<close>.
\<close>

theorem empty_response_is_rejected:
  "interpret_action (ex_ai True [] DecodeError) ''hit the wall'' (ex_player [])
       (ex_room None [] []) ''Generic fantasy dungeon''
     = invalid_intent ''LLM returned empty response''
   \<and> valid (invalid_intent ''LLM returned empty response'') = Some False
   \<and> plausibility (invalid_intent ''LLM returned empty response'') = Some 0
   \<and> action_type (invalid_intent ''LLM returned empty response'') = None
   \<and> resolve_free_action ''hit the wall'' (ex_player []) (ex_room None [] []) None
        (ex_ai True [] DecodeError) (const_rng 9)
     = Inr (rejected_result ''LLM returned empty response''
              (invalid_intent ''LLM returned empty response''),
            ex_player [], ex_room None [] [], const_rng 9)"
  by (simp add: interpret_action_def ex_ai_def invalid_intent_def resolve_free_action_def
        interpretation_stage_def validate_def Let_def)

subsection \<open>The validator\<close>

lemma find_Some_split:
  "find P xs = Some c \<longleftrightarrow> (\<exists>pre post. xs = pre @ c # post \<and> P c \<and> (\<forall>x\<in>set pre. \<not> P x))"
proof (induction xs)
  case Nil
  then show ?case by simp
next
  case (Cons x xs)
  show ?case
  proof (cases "P x")
    case True
    have "(\<exists>pre post. x # xs = pre @ c # post \<and> P c \<and> (\<forall>y\<in>set pre. \<not> P y)) \<longleftrightarrow> x = c"
    proof
      assume "\<exists>pre post. x # xs = pre @ c # post \<and> P c \<and> (\<forall>y\<in>set pre. \<not> P y)"
      then obtain pre post where h: "x # xs = pre @ c # post" "\<forall>y\<in>set pre. \<not> P y" by blast
      show "x = c"
      proof (cases pre)
        case Nil
        with h show ?thesis by simp
      next
        case (Cons a as)
        with h have "a = x" by simp
        with Cons h True show ?thesis by simp
      qed
    next
      assume "x = c"
      then have "x # xs = [] @ c # xs \<and> P c \<and> (\<forall>y\<in>set []. \<not> P y)" using True by simp
      then show "\<exists>pre post. x # xs = pre @ c # post \<and> P c \<and> (\<forall>y\<in>set pre. \<not> P y)" by blast
    qed
    with True show ?thesis by auto
  next
    case False
    have "(\<exists>pre post. x # xs = pre @ c # post \<and> P c \<and> (\<forall>y\<in>set pre. \<not> P y))
          \<longleftrightarrow> (\<exists>pre post. xs = pre @ c # post \<and> P c \<and> (\<forall>y\<in>set pre. \<not> P y))"
    proof
      assume "\<exists>pre post. x # xs = pre @ c # post \<and> P c \<and> (\<forall>y\<in>set pre. \<not> P y)"
      then obtain pre post where h: "x # xs = pre @ c # post" "P c" "\<forall>y\<in>set pre. \<not> P y" by blast
      show "\<exists>pre post. xs = pre @ c # post \<and> P c \<and> (\<forall>y\<in>set pre. \<not> P y)"
      proof (cases pre)
        case Nil
        with h False show ?thesis by simp
      next
        case (Cons a as)
        with h have "xs = as @ c # post \<and> P c \<and> (\<forall>y\<in>set as. \<not> P y)" by simp
        then show ?thesis by blast
      qed
    next
      assume "\<exists>pre post. xs = pre @ c # post \<and> P c \<and> (\<forall>y\<in>set pre. \<not> P y)"
      then obtain pre post where h: "xs = pre @ c # post" "P c" "\<forall>y\<in>set pre. \<not> P y" by blast
      then have "x # xs = (x # pre) @ c # post \<and> P c \<and> (\<forall>y\<in>set (x # pre). \<not> P y)"
        using False by simp
      then show "\<exists>pre post. x # xs = pre @ c # post \<and> P c \<and> (\<forall>y\<in>set pre. \<not> P y)" by blast
    qed
    with False Cons.IH show ?thesis by simp
  qed
qed

lemma validate_after_earlier_checks:
  assumes "(case valid i of None \<Rightarrow> True | Some v \<Rightarrow> v)"
      and "\<not> (case plausibility i of None \<Rightarrow> 0 | Some q \<Rightarrow> q) < 0.1"
      and "target_stage i p r = None"
      and "physics_stage i p = None"
  shows "validate i p r =
           (case component_stage i p of
              Some component \<Rightarrow> Denied (''MISSING_COMPONENT: '' @ component)
            | None \<Rightarrow> Allowed)"
  using assms by (simp add: validate_def)

text \<open>
  Claim C6, as the code has it.  \<open>component not in inventory_names\<close> tests membership in
  the list of the item names, that is equality with one of them (case-sensitive), not a
  substring match.  Given that the earlier checks pass, \<open>validate\<close> denies with
  \<open>MISSING_COMPONENT: c\<close> exactly when \<open>c\<close> is the first entry of \<open>components_used\<close> that is
  not the name of an inventory item, allows exactly when every entry is the name of an
  inventory item, and does nothing else.
\<close>

theorem validate_missing_component_exact:
  assumes "(case valid i of None \<Rightarrow> True | Some v \<Rightarrow> v)"
      and "\<not> (case plausibility i of None \<Rightarrow> 0 | Some q \<Rightarrow> q) < 0.1"
      and "target_stage i p r = None"
      and "physics_stage i p = None"
  shows "(validate i p r = Denied (''MISSING_COMPONENT: '' @ c) \<longleftrightarrow>
            (\<exists>pre post. intent_components i = pre @ c # post \<and>
                c \<notin> item_name ` set (inventory p) \<and>
                set pre \<subseteq> item_name ` set (inventory p)))
       \<and> (validate i p r = Allowed \<longleftrightarrow>
            set (intent_components i) \<subseteq> item_name ` set (inventory p))
       \<and> (validate i p r = Allowed \<or>
            (\<exists>c'. validate i p r = Denied (''MISSING_COMPONENT: '' @ c')))"
proof -
  let ?P = "\<lambda>component. component \<notin> set (map item_name (inventory p))"
  have v: "validate i p r =
           (case component_stage i p of
              Some component \<Rightarrow> Denied (''MISSING_COMPONENT: '' @ component)
            | None \<Rightarrow> Allowed)"
    using assms by (rule validate_after_earlier_checks)
  have a: "validate i p r = Denied (''MISSING_COMPONENT: '' @ c) \<longleftrightarrow> component_stage i p = Some c"
    unfolding v by (cases "component_stage i p") simp_all
  have b: "component_stage i p = Some c \<longleftrightarrow>
            (\<exists>pre post. intent_components i = pre @ c # post \<and>
                c \<notin> item_name ` set (inventory p) \<and>
                set pre \<subseteq> item_name ` set (inventory p))"
    unfolding component_stage_def find_Some_split by auto
  have c: "validate i p r = Allowed \<longleftrightarrow> component_stage i p = None"
    unfolding v by (cases "component_stage i p") simp_all
  have d: "component_stage i p = None \<longleftrightarrow>
            set (intent_components i) \<subseteq> item_name ` set (inventory p)"
    unfolding component_stage_def find_None_iff by auto
  have e: "validate i p r = Allowed \<or>
            (\<exists>c'. validate i p r = Denied (''MISSING_COMPONENT: '' @ c'))"
    unfolding v by (cases "component_stage i p") simp_all
  show ?thesis using a b c d e by simp
qed


theorem validate_missing_component_exact_witness:
  "validate (ex_intent None ''mix'' [''Rubinstaub'', ''Rubin''])
      (ex_player [ex_item ''Rubinstaub'']) (ex_room None [] [])
     = Denied (''MISSING_COMPONENT: '' @ ''Rubin'')
   \<and> validate (ex_intent None ''mix'' [''Rubinstaub''])
      (ex_player [ex_item ''Rubinstaub'']) (ex_room None [] []) = Allowed"
proof -
  let ?p = "ex_player [ex_item ''Rubinstaub'']"
  let ?r = "ex_room None [] []"
  let ?i = "ex_intent None ''mix'' [''Rubinstaub'', ''Rubin'']"
  let ?j = "ex_intent None ''mix'' [''Rubinstaub'']"
  have h1: "(case valid ?i of None \<Rightarrow> True | Some v \<Rightarrow> v)" by code_simp
  have h2: "\<not> (case plausibility ?i of None \<Rightarrow> 0 | Some q \<Rightarrow> q) < 0.1" by code_simp
  have h3: "target_stage ?i ?p ?r = None" by code_simp
  have h4: "physics_stage ?i ?p = None" by code_simp
  have k1: "(case valid ?j of None \<Rightarrow> True | Some v \<Rightarrow> v)" by code_simp
  have k2: "\<not> (case plausibility ?j of None \<Rightarrow> 0 | Some q \<Rightarrow> q) < 0.1" by code_simp
  have k3: "target_stage ?j ?p ?r = None" by code_simp
  have k4: "physics_stage ?j ?p = None" by code_simp
  have c1: "intent_components ?i = [''Rubinstaub''] @ ''Rubin'' # []" by code_simp
  have c2: "''Rubin'' \<notin> item_name ` set (inventory ?p)" by code_simp
  have c3: "set [''Rubinstaub''] \<subseteq> item_name ` set (inventory ?p)" by code_simp
  have c4: "set (intent_components ?j) \<subseteq> item_name ` set (inventory ?p)" by code_simp
  from validate_missing_component_exact [OF h1 h2 h3 h4, of "''Rubin''"] c1 c2 c3
  have a: "validate ?i ?p ?r = Denied (''MISSING_COMPONENT: '' @ ''Rubin'')" by blast
  from validate_missing_component_exact [OF k1 k2 k3 k4, of "''Rubin''"] c4
  have b: "validate ?j ?p ?r = Allowed" by blast
  from a b show ?thesis by blast
qed

text \<open>
  Claim C6 as stated fails: the component \<open>Rubin\<close> is a proper substring of the name of
  the inventory item \<open>Rubinstaub\<close>, the earlier checks pass, and the intent is denied
  with \<open>MISSING_COMPONENT: Rubin\<close>.
\<close>

theorem substring_component_denied:
  "str_in ''Rubin'' (item_name (ex_item ''Rubinstaub''))
   \<and> ''Rubin'' \<noteq> item_name (ex_item ''Rubinstaub'')
   \<and> inventory (ex_player [ex_item ''Rubinstaub'']) = [ex_item ''Rubinstaub'']
   \<and> target_stage (ex_intent None ''mix'' [''Rubin'']) (ex_player [ex_item ''Rubinstaub''])
        (ex_room None [] []) = None
   \<and> physics_stage (ex_intent None ''mix'' [''Rubin'']) (ex_player [ex_item ''Rubinstaub'']) = None
   \<and> validate (ex_intent None ''mix'' [''Rubin'']) (ex_player [ex_item ''Rubinstaub''])
        (ex_room None [] []) = Denied ''MISSING_COMPONENT: Rubin''"
  by code_simp

lemma exact_name_in_items:
  assumes "it \<in> set items"
  shows "target_in_items (lower (item_name it)) items"
proof -
  have "str_in (lower (lower (item_name it))) (lower (item_name it))"
    by (simp add: lower_idem str_in_refl)
  with assms show ?thesis
    unfolding target_in_items_def list_ex_iff by blast
qed

lemma exact_name_in_equipment:
  assumes "(slot, Some it) \<in> set eq"
  shows "target_in_equipment (lower (item_name it)) eq"
proof -
  have "str_in (lower (lower (item_name it))) (lower (item_name it))"
    by (simp add: lower_idem str_in_refl)
  with assms show ?thesis
    unfolding target_in_equipment_def list_ex_iff by force
qed

text \<open>
  Claim C3, as the code has it.  The destroyed objects are looked at inside the block
  \<open>if room.description\<close> of the target stage only.  So for a valid intent of plausibility
  at least 0.1, one of the three action types, a non-empty target that is no exploration
  word and a room with a non-empty description: when a destroyed object matches the
  target (one contains the other, lowercased), \<open>validate\<close> denies with
  \<open>OBJECT_DESTROYED\<close>, whatever the monster, the NPC, the loot, the discovered objects,
  the assigned object and the player are.
\<close>

theorem validate_destroyed_blocked:
  assumes "valid i = Some True"
      and "plausibility i = Some q" and "q \<ge> 0.1"
      and "target i = Some tgt" and "tgt \<noteq> []"
      and "action_type i \<in> {Some ''physical_attack'', Some ''social'', Some ''interact_object''}"
      and "lower tgt \<notin> set exploration_targets"
      and "desc \<noteq> []"
      and "target_matches_any tgt destroyed"
  shows "validate i p
           (r\<lparr>description := Some desc, destroyed_objects := destroyed, room_monster := m,
              room_npc := n, loot := l, discovered_objects := ds, assigned_object := a\<rparr>)
         = Denied (destroyed_message tgt)"
proof -
  let ?r = "r\<lparr>description := Some desc, destroyed_objects := destroyed, room_monster := m,
              room_npc := n, loot := l, discovered_objects := ds, assigned_object := a\<rparr>"
  have "target_check i tgt p ?r = Some (destroyed_message tgt)"
    using assms(8,9) by (simp add: target_check_def Let_def destroyed_message_def)
  then have "target_stage i p ?r = Some (destroyed_message tgt)"
    using assms(4-7) by (simp add: target_stage_def)
  then show ?thesis
    using assms(1-3) by (simp add: validate_def)
qed

theorem validate_destroyed_blocked_witness:
  "validate (ex_intent (Some ''vase'') ''look'' []) (ex_player [ex_item ''Vase''])
     ((ex_room None [] [])\<lparr>description := Some ''A room with a vase.'',
        destroyed_objects := [''the vase''], room_monster := None, room_npc := None,
        loot := [ex_item ''Vase''], discovered_objects := [''vase''],
        assigned_object := Some ''Vase''\<rparr>)
   = Denied (destroyed_message ''vase'')"
proof -
  let ?i = "ex_intent (Some ''vase'') ''look'' []"
  have h1: "valid ?i = Some True" by code_simp
  have h2: "plausibility ?i = Some 0.5" by code_simp
  have h3: "(0.5::real) \<ge> 0.1" by simp
  have h4: "target ?i = Some ''vase''" by code_simp
  have h5: "''vase'' \<noteq> []" by simp
  have h6: "action_type ?i \<in> {Some ''physical_attack'', Some ''social'', Some ''interact_object''}"
    by code_simp
  have h7: "lower ''vase'' \<notin> set exploration_targets" by code_simp
  have h8: "''A room with a vase.'' \<noteq> []" by simp
  have h9: "target_matches_any ''vase'' [''the vase'']" by code_simp
  show ?thesis
    by (rule validate_destroyed_blocked [OF h1 h2 h3 h4 h5 h6 h7 h8 h9])
qed

text \<open>
  Claim C3 as stated fails: the destroyed object \<open>vase\<close> matches the target \<open>vase\<close>, and
  the intent is allowed, in a room without description (the item of the loot is found)
  and, in a room with a description, for the exploration word \<open>wand\<close>.
\<close>

theorem destroyed_object_not_blocked:
  "target_matches_any ''vase''
      (destroyed_objects (ex_room None [ex_item ''Vase''] [''vase'']))
   \<and> validate (ex_intent (Some ''vase'') ''look'' []) (ex_player [])
        (ex_room None [ex_item ''Vase''] [''vase'']) = Allowed
   \<and> target_matches_any ''wand''
      (destroyed_objects (ex_room (Some ''Eine Wand.'') [] [''wand'']))
   \<and> validate (ex_intent (Some ''wand'') ''look'' []) (ex_player [])
        (ex_room (Some ''Eine Wand.'') [] [''wand'']) = Allowed"
  by code_simp

text \<open>
  Claim C5, as the code has it.  For an item of the inventory, the equipment or the room
  loot with a non-empty name \<open>N\<close>, and an intent \<open>interact_object\<close> on \<open>N.lower()\<close> that is
  valid, has plausibility at least 0.1, no forbidden method and no component: the search
  finds the target, so \<open>validate\<close> never answers \<open>TARGET_NOT_PRESENT\<close>.  It allows the
  intent, with two exceptions that the description block makes when the room has a
  non-empty description and the target is no exploration word: a destroyed object that
  matches the target denies with \<open>OBJECT_DESTROYED\<close>; otherwise a target that is an anchor
  object of the description, is not found in the room loot and contains an immovable
  word, with a taking method, denies with \<open>OBJECT_FIXED\<close>.
\<close>

theorem validate_exact_name:
  assumes present: "it \<in> set (inventory p) \<or> it \<in> set (loot r) \<or>
                    (\<exists>slot. (slot, Some it) \<in> set (equipment p))"
      and "item_name it \<noteq> []"
      and "action_type i = Some ''interact_object''"
      and "target i = Some (lower (item_name it))"
      and "valid i = Some True"
      and "plausibility i = Some q" and "q \<ge> 0.1"
      and "\<forall>forbidden \<in> set FORBIDDEN_METHODS. \<not> str_in forbidden (lower (intent_method i))"
      and "components_used i = Some []"
  shows "validate i p r =
          (case description r of
             None \<Rightarrow> Allowed
           | Some desc \<Rightarrow>
              (if desc = [] \<or> lower (item_name it) \<in> set exploration_targets then Allowed
               else if target_matches_any (lower (item_name it)) (destroyed_objects r)
               then Denied (destroyed_message (lower (item_name it)))
               else if is_anchor_object (lower (item_name it)) desc \<and>
                       is_taking (intent_method i) \<and>
                       \<not> target_in_items (lower (item_name it)) (loot r) \<and>
                       is_truly_immovable (lower (item_name it))
               then Denied (fixed_message (lower (item_name it)))
               else Allowed))"
proof -
  let ?t = "lower (item_name it)"
  have found: "target_in_items ?t (loot r) \<or> target_in_items ?t (inventory p) \<or>
               target_in_equipment ?t (equipment p)"
    using present exact_name_in_items exact_name_in_equipment by blast
  have ne: "?t \<noteq> []" using assms(2) by (simp add: lower_def)
  have phys: "physics_stage i p = None"
    using assms(8) by (auto simp add: physics_stage_def find_None_iff)
  have comp: "component_stage i p = None"
    using assms(9) by (simp add: component_stage_def intent_components_def)
  have v: "validate i p r = (case target_stage i p r of Some reason \<Rightarrow> Denied reason | None \<Rightarrow> Allowed)"
    using assms(5-7) phys comp by (simp add: validate_def split: option.splits)
  have tc: "target_check i ?t p r =
          (case description r of
             None \<Rightarrow> None
           | Some desc \<Rightarrow>
              (if desc = [] then None
               else if target_matches_any ?t (destroyed_objects r)
               then Some (destroyed_message ?t)
               else if is_anchor_object ?t desc \<and> is_taking (intent_method i) \<and>
                       \<not> target_in_items ?t (loot r) \<and> is_truly_immovable ?t
               then Some (fixed_message ?t)
               else None))"
    using found
    by (auto simp add: target_check_def Let_def destroyed_message_def fixed_message_def
             split: option.splits)
  have ts: "target_stage i p r =
          (if ?t \<in> set exploration_targets then None else target_check i ?t p r)"
    using assms(3,4) ne by (simp add: target_stage_def lower_idem)
  show ?thesis
    unfolding v ts tc by (simp split: option.splits)
qed


theorem validate_exact_name_witness:
  "validate (ex_intent (Some ''rubinstaub'') ''look at it'' []) (ex_player [ex_item ''Rubinstaub''])
     (ex_room (Some ''Ein dunkler Raum.'') [] []) = Allowed"
proof -
  let ?it = "ex_item ''Rubinstaub''"
  let ?i = "ex_intent (Some ''rubinstaub'') ''look at it'' []"
  let ?p = "ex_player [ex_item ''Rubinstaub'']"
  let ?r = "ex_room (Some ''Ein dunkler Raum.'') [] []"
  have h1: "?it \<in> set (inventory ?p) \<or> ?it \<in> set (loot ?r) \<or>
            (\<exists>slot. (slot, Some ?it) \<in> set (equipment ?p))"
    by (simp add: ex_player_def)
  have h2: "item_name ?it \<noteq> []" by code_simp
  have h3: "action_type ?i = Some ''interact_object''" by code_simp
  have h4: "target ?i = Some (lower (item_name ?it))" by code_simp
  have h5: "valid ?i = Some True" by code_simp
  have h6: "plausibility ?i = Some 0.5" by code_simp
  have h7: "(0.5::real) \<ge> 0.1" by simp
  have h8: "\<forall>forbidden \<in> set FORBIDDEN_METHODS. \<not> str_in forbidden (lower (intent_method ?i))"
    by code_simp
  have h9: "components_used ?i = Some []" by code_simp
  have rhs: "(case description ?r of
             None \<Rightarrow> Allowed
           | Some desc \<Rightarrow>
              (if desc = [] \<or> lower (item_name ?it) \<in> set exploration_targets then Allowed
               else if target_matches_any (lower (item_name ?it)) (destroyed_objects ?r)
               then Denied (destroyed_message (lower (item_name ?it)))
               else if is_anchor_object (lower (item_name ?it)) desc \<and>
                       is_taking (intent_method ?i) \<and>
                       \<not> target_in_items (lower (item_name ?it)) (loot ?r) \<and>
                       is_truly_immovable (lower (item_name ?it))
               then Denied (fixed_message (lower (item_name ?it)))
               else Allowed)) = Allowed"
    by code_simp
  from validate_exact_name [OF h1 h2 h3 h4 h5 h6 h7 h8 h9] rhs
  show ?thesis by simp
qed

text \<open>
  Claim C5 as stated fails: the inventory holds the item \<open>Door Key\<close>, the intent is
  \<open>interact_object\<close> on \<open>door key\<close>, valid, of plausibility 0.5, with the method
  \<open>take the key\<close> (no forbidden method) and no components, and it is denied with
  \<open>OBJECT_FIXED\<close>, because the description mentions a door.
\<close>

theorem exact_name_denied_fixed:
  "inventory (ex_player [ex_item ''Door Key'']) = [ex_item ''Door Key'']
   \<and> target (ex_intent (Some ''door key'') ''take the key'' [])
       = Some (lower (item_name (ex_item ''Door Key'')))
   \<and> physics_stage (ex_intent (Some ''door key'') ''take the key'' [])
        (ex_player [ex_item ''Door Key'']) = None
   \<and> validate (ex_intent (Some ''door key'') ''take the key'' [])
        (ex_player [ex_item ''Door Key''])
        (ex_room (Some ''A heavy door blocks the way.'') [] [])
       = Denied ''OBJECT_FIXED: door key ist fest verbaut und kann nicht mitgenommen werden''"
  by code_simp

subsection \<open>Repeated failures\<close>

lemma track_failure_first:
  assumes "\<not> res_success res" and "strip (lower action) = n"
      and "last_failed_action gm \<noteq> n \<or> fail_count gm = 0"
  shows "track_failure action res gm = gm\<lparr>last_failed_action := n, fail_count := 1\<rparr>"
  using assms by (auto simp add: track_failure_def Let_def)

lemma track_failure_second:
  assumes "\<not> res_success res" and "strip (lower action) = n"
      and "last_failed_action gm = n" and "fail_count gm = 1"
  shows "track_failure action res gm = gm\<lparr>fail_count := 2\<rparr>"
  using assms by (simp add: track_failure_def Let_def)

lemma track_failure_third:
  assumes "\<not> res_success res" and "strip (lower action) = n"
      and "last_failed_action gm = n" and "fail_count gm = 2"
  shows "track_failure action res gm =
           (case target (res_intent res) of
              None \<Rightarrow> gm\<lparr>fail_count := 3\<rparr>
            | Some tgt \<Rightarrow>
                if tgt = [] then gm\<lparr>fail_count := 3\<rparr>
                else gm\<lparr>game_room := (game_room gm)\<lparr>destroyed_objects :=
                                         destroyed_objects (game_room gm) @ [tgt]\<rparr>,
                        last_failed_action := [], fail_count := 0\<rparr>)"
  using assms by (simp add: track_failure_def Let_def split: option.splits)

text \<open>
  Claim C8, as the code has it.  Three failures of actions with the same normalized text
  (lowercased and stripped), the first of them starting a new run (another action failed
  last, or the counter is 0), with nothing in between that changes the two tracking
  fields (whatever else happens to the game between the failures): the first two
  failures leave the room alone and bring the counter to 2.  The third failure appends
  the target of its intent to \<open>room.destroyed_objects\<close> and resets the counter and the
  last failed action when the target is neither \<open>None\<close> nor the empty string
  (\<open>if target:\<close>); for the target \<open>None\<close> or the empty string it appends nothing and
  resets nothing: the counter is 3 and the last failed action is kept.
\<close>

theorem third_failure_destroys_target:
  assumes same: "strip (lower a1) = n" "strip (lower a2) = n" "strip (lower a3) = n"
      and fresh: "last_failed_action gm0 \<noteq> n \<or> fail_count gm0 = 0"
      and fails: "\<not> res_success r1" "\<not> res_success r2" "\<not> res_success r3"
      and between1: "last_failed_action gm1 = last_failed_action (track_failure a1 r1 gm0)"
                    "fail_count gm1 = fail_count (track_failure a1 r1 gm0)"
      and between2: "last_failed_action gm2 = last_failed_action (track_failure a2 r2 gm1)"
                    "fail_count gm2 = fail_count (track_failure a2 r2 gm1)"
  shows "game_room (track_failure a1 r1 gm0) = game_room gm0
       \<and> game_room (track_failure a2 r2 gm1) = game_room gm1
       \<and> last_failed_action gm2 = n \<and> fail_count gm2 = 2
       \<and> track_failure a3 r3 gm2 =
           (case target (res_intent r3) of
              None \<Rightarrow> gm2\<lparr>fail_count := 3\<rparr>
            | Some tgt \<Rightarrow>
                if tgt = [] then gm2\<lparr>fail_count := 3\<rparr>
                else gm2\<lparr>game_room := (game_room gm2)\<lparr>destroyed_objects :=
                                          destroyed_objects (game_room gm2) @ [tgt]\<rparr>,
                         last_failed_action := [], fail_count := 0\<rparr>)"
proof -
  have t1: "track_failure a1 r1 gm0 = gm0\<lparr>last_failed_action := n, fail_count := 1\<rparr>"
    using fails(1) same(1) fresh by (rule track_failure_first)
  then have s1: "last_failed_action gm1 = n" "fail_count gm1 = 1"
    using between1 by simp_all
  have t2: "track_failure a2 r2 gm1 = gm1\<lparr>fail_count := 2\<rparr>"
    using fails(2) same(2) s1 by (rule track_failure_second)
  then have s2: "last_failed_action gm2 = n" "fail_count gm2 = 2"
    using between2 s1 by simp_all
  note t3 = track_failure_third [OF fails(3) same(3) s2]
  show ?thesis using t1 t2 s2 t3 by simp
qed

theorem third_failure_destroys_target_witness:
  "track_failure '' SMASH the vase'' (smash (Some ''vase''))
     (track_failure ''smash the vase '' (smash (Some ''vase''))
        (track_failure ''Smash the Vase'' (smash (Some ''vase''))
           (ex_game (ex_player []) (ex_room None [] []))))
   = (ex_game (ex_player []) (ex_room None [] [''vase'']))
   \<and> track_failure '' SMASH the vase'' (smash None)
     (track_failure ''smash the vase '' (smash (Some ''vase''))
        (track_failure ''Smash the Vase'' (smash (Some ''vase''))
           (ex_game (ex_player []) (ex_room None [] []))))
   = (ex_game (ex_player []) (ex_room None [] []))
       \<lparr>last_failed_action := ''smash the vase'', fail_count := 3\<rparr>"
proof -
  let ?g0 = "ex_game (ex_player []) (ex_room None [] [])"
  let ?r = "smash (Some ''vase'')"
  let ?g1 = "track_failure ''Smash the Vase'' ?r ?g0"
  let ?g2 = "track_failure ''smash the vase '' ?r ?g1"
  have n1: "strip (lower ''Smash the Vase'') = ''smash the vase''" by code_simp
  have n2: "strip (lower ''smash the vase '') = ''smash the vase''" by code_simp
  have n3: "strip (lower '' SMASH the vase'') = ''smash the vase''" by code_simp
  have fresh: "last_failed_action ?g0 \<noteq> ''smash the vase'' \<or> fail_count ?g0 = 0"
    by (simp add: ex_game_def)
  have f: "\<not> res_success ?r" by (simp add: smash_def ex_result_def)
  have fn: "\<not> res_success (smash None)" by (simp add: smash_def ex_result_def)
  have tg: "target (res_intent ?r) = Some ''vase''"
    by (simp add: smash_def ex_result_def rejected_result_def ex_intent_def)
  have tn: "target (res_intent (smash None)) = None"
    by (simp add: smash_def ex_result_def rejected_result_def ex_intent_def)
  from third_failure_destroys_target [OF n1 n2 n3 fresh f f f refl refl refl refl] tg
  have 3: "track_failure '' SMASH the vase'' ?r ?g2 =
           ?g2\<lparr>game_room := (game_room ?g2)\<lparr>destroyed_objects :=
                                  destroyed_objects (game_room ?g2) @ [''vase'']\<rparr>,
               last_failed_action := [], fail_count := 0\<rparr>"
    by simp
  from third_failure_destroys_target [OF n1 n2 n3 fresh f f fn refl refl refl refl] tn
  have 4: "track_failure '' SMASH the vase'' (smash None) ?g2 = ?g2\<lparr>fail_count := 3\<rparr>"
    by simp
  have g2: "?g2 = ?g0\<lparr>last_failed_action := ''smash the vase'', fail_count := 2\<rparr>"
    by code_simp
  have fin: "(?g0\<lparr>last_failed_action := ''smash the vase'', fail_count := 2\<rparr>)
               \<lparr>game_room := (game_room (?g0\<lparr>last_failed_action := ''smash the vase'',
                                              fail_count := 2\<rparr>))
                    \<lparr>destroyed_objects :=
                       destroyed_objects (game_room (?g0\<lparr>last_failed_action :=
                          ''smash the vase'', fail_count := 2\<rparr>)) @ [''vase'']\<rparr>,
                 last_failed_action := [], fail_count := 0\<rparr>
             = ex_game (ex_player []) (ex_room None [] [''vase''])"
    by code_simp
  have a: "track_failure '' SMASH the vase'' ?r ?g2
             = ex_game (ex_player []) (ex_room None [] [''vase''])"
    using 3 fin unfolding g2 by simp
  have b: "track_failure '' SMASH the vase'' (smash None) ?g2
             = ?g0\<lparr>last_failed_action := ''smash the vase'', fail_count := 3\<rparr>"
    using 4 unfolding g2 by simp
  from a b show ?thesis by simp
qed

text \<open>
  Claim C8 as stated fails for a target that is not \<open>None\<close>: on the third failure of the
  same action the intent has the empty string as target; nothing is appended to the
  destroyed objects, and the counter stays at 3 with the last failed action kept.
\<close>

theorem empty_target_not_destroyed:
  "target (res_intent (smash (Some []))) \<noteq> None
   \<and> \<not> res_success (smash (Some []))
   \<and> track_failure '' SMASH the vase'' (smash (Some []))
       (track_failure ''smash the vase '' (smash (Some ''vase''))
          (track_failure ''Smash the Vase'' (smash (Some ''vase''))
             (ex_game (ex_player []) (ex_room None [] []))))
     = (ex_game (ex_player []) (ex_room None [] []))
         \<lparr>last_failed_action := ''smash the vase'', fail_count := 3\<rparr>"
  by code_simp

subsection \<open>Consumed components\<close>

lemma remove_first_none:
  assumes "\<not> list_ex P xs"
  shows "remove_first P xs = xs"
  using assms by (induction xs) auto

lemma remove_first_split:
  assumes "P x" and "\<not> list_ex P pre"
  shows "remove_first P (pre @ x # post) = pre @ post"
  using assms by (induction pre) auto

lemma length_remove_first:
  "length (remove_first P xs) \<le> length xs \<and> length xs \<le> length (remove_first P xs) + 1"
  by (induction xs) auto

lemma subseq_remove_first: "subseq (remove_first P xs) xs"
  by (induction xs) auto

lemma length_fold_remove:
  "length (foldl (\<lambda>iv c. remove_first (Q c) iv) xs cs) \<le> length xs
   \<and> length xs \<le> length (foldl (\<lambda>iv c. remove_first (Q c) iv) xs cs) + length cs"
proof (induction cs arbitrary: xs)
  case Nil
  then show ?case by simp
next
  case (Cons c cs)
  have l: "length (remove_first (Q c) xs) \<le> length xs
           \<and> length xs \<le> length (remove_first (Q c) xs) + 1"
    using length_remove_first [of "Q c" xs] by simp
  from Cons.IH [of "remove_first (Q c) xs"] l show ?case by simp
qed

lemma subseq_fold_remove:
  "subseq (foldl (\<lambda>iv c. remove_first (Q c) iv) xs cs) xs"
proof (induction cs arbitrary: xs)
  case Nil
  then show ?case by simp
next
  case (Cons c cs)
  have "subseq (foldl (\<lambda>iv c. remove_first (Q c) iv) (remove_first (Q c) xs) cs)
          (remove_first (Q c) xs)"
    by (rule Cons.IH)
  from subseq_order.order_trans [OF this subseq_remove_first [of "Q c" xs]]
  show ?case by simp
qed

text \<open>
  Claim C10, amended.  A result that is not successful (a failed roll, and every rejected
  result) leaves the player as it is.  A successful result changes the inventory only: the
  entries of \<open>components_used\<close> are processed in order, and each entry removes the first item
  of the current inventory whose lowercased name contains the lowercased entry, or nothing
  when no item matches.  So every entry removes at most one item, not exactly one: the
  inventory that is left is a subsequence of the old one and is shorter by at most the
  number of entries.
\<close>

theorem consume_components_at_most_one:
  "(\<not> res_success res \<longrightarrow> consume_components res p = p)
   \<and> (res_success res \<longrightarrow>
        consume_components res p =
          p\<lparr>inventory := foldl (\<lambda>iv c. remove_first (component_matches c) iv)
                             (inventory p) (intent_components (res_intent res))\<rparr>)
   \<and> (\<not> list_ex (component_matches c) iv \<longrightarrow> remove_first (component_matches c) iv = iv)
   \<and> (component_matches c it \<and> \<not> list_ex (component_matches c) pre
        \<longrightarrow> remove_first (component_matches c) (pre @ it # post) = pre @ post)
   \<and> subseq (inventory (consume_components res p)) (inventory p)
   \<and> length (inventory p)
        \<le> length (inventory (consume_components res p)) + length (intent_components (res_intent res))"
proof -
  have a: "\<not> res_success res \<longrightarrow> consume_components res p = p"
    by (simp add: consume_components_def)
  have b: "res_success res \<longrightarrow>
        consume_components res p =
          p\<lparr>inventory := foldl (\<lambda>iv c. remove_first (component_matches c) iv)
                             (inventory p) (intent_components (res_intent res))\<rparr>"
    by (simp add: consume_components_def)
  have c: "\<not> list_ex (component_matches c) iv \<longrightarrow> remove_first (component_matches c) iv = iv"
    by (simp add: remove_first_none)
  have d: "component_matches c it \<and> \<not> list_ex (component_matches c) pre
        \<longrightarrow> remove_first (component_matches c) (pre @ it # post) = pre @ post"
    by (simp add: remove_first_split)
  have e: "subseq (inventory (consume_components res p)) (inventory p)"
    using subseq_fold_remove [of component_matches "inventory p"
                                 "intent_components (res_intent res)"]
    by (simp add: consume_components_def)
  have f: "length (inventory p)
        \<le> length (inventory (consume_components res p)) + length (intent_components (res_intent res))"
    using length_fold_remove [of component_matches "inventory p"
                                 "intent_components (res_intent res)"]
    by (simp add: consume_components_def)
  from a b c d e f show ?thesis by (intro conjI) simp_all
qed

theorem consume_components_at_most_one_witness:
  "consume_components (brew False [''herb'', ''moon'']) (ex_player herb_pouch) = ex_player herb_pouch
   \<and> inventory (consume_components (brew True [''herb'', ''moon'']) (ex_player herb_pouch))
       = [ex_item ''Sword'', ex_item ''Herb'']
   \<and> remove_first (component_matches ''herb'') ([ex_item ''Sword''] @ ex_item ''Healing Herb'' # [ex_item ''Herb''])
       = [ex_item ''Sword''] @ [ex_item ''Herb'']
   \<and> remove_first (component_matches ''moon'') [ex_item ''Sword'', ex_item ''Herb'']
       = [ex_item ''Sword'', ex_item ''Herb'']"
proof -
  let ?p = "ex_player herb_pouch"
  have nf: "\<not> res_success (brew False [''herb'', ''moon''])" by code_simp
  have ok: "res_success (brew True [''herb'', ''moon''])" by code_simp
  have cs: "intent_components (res_intent (brew True [''herb'', ''moon''])) = [''herb'', ''moon'']"
    by code_simp
  have iv: "inventory ?p = [ex_item ''Sword''] @ ex_item ''Healing Herb'' # [ex_item ''Herb'']"
    by (simp add: ex_player_def herb_pouch_def)
  have m: "component_matches ''herb'' (ex_item ''Healing Herb'')" by code_simp
  have nm: "\<not> list_ex (component_matches ''herb'') [ex_item ''Sword'']" by code_simp
  have nmoon: "\<not> list_ex (component_matches ''moon'') [ex_item ''Sword'', ex_item ''Herb'']"
    by code_simp
  have 1: "consume_components (brew False [''herb'', ''moon'']) ?p = ?p"
    using consume_components_at_most_one [of "brew False [''herb'', ''moon'']" ?p] nf by blast
  have 2: "consume_components (brew True [''herb'', ''moon'']) ?p =
             ?p\<lparr>inventory := foldl (\<lambda>iv c. remove_first (component_matches c) iv)
                                 (inventory ?p) [''herb'', ''moon'']\<rparr>"
    using consume_components_at_most_one [of "brew True [''herb'', ''moon'']" ?p] ok cs by simp
  have 3: "remove_first (component_matches ''herb'')
             ([ex_item ''Sword''] @ ex_item ''Healing Herb'' # [ex_item ''Herb''])
           = [ex_item ''Sword''] @ [ex_item ''Herb'']"
    using consume_components_at_most_one
            [of "brew True [''herb'', ''moon'']" ?p "''herb''" "[]" "ex_item ''Healing Herb''"
                "[ex_item ''Sword'']" "[ex_item ''Herb'']"] m nm
    by blast
  have 4: "remove_first (component_matches ''moon'') [ex_item ''Sword'', ex_item ''Herb'']
           = [ex_item ''Sword'', ex_item ''Herb'']"
    using consume_components_at_most_one
            [of "brew True [''herb'', ''moon'']" ?p "''moon''"
                "[ex_item ''Sword'', ex_item ''Herb'']"] nmoon
    by blast
  have 5: "inventory (consume_components (brew True [''herb'', ''moon'']) ?p)
             = [ex_item ''Sword'', ex_item ''Herb'']"
    using 3 4 unfolding 2 iv by simp
  from 1 5 3 4 show ?thesis by blast
qed

text \<open>
  The claim as stated (exactly one item per entry) fails.  The interpreter names the same
  component twice, the player has one such item, the validator lets the intent pass, the
  roll succeeds, and the two entries remove one item.
\<close>

theorem duplicate_component_removes_one:
  "(case use_the_herbs of
      Inl e \<Rightarrow> False
    | Inr (res, p, r, g) \<Rightarrow>
        res_success res \<and> length (intent_components (res_intent res)) = 2
        \<and> length (inventory p) = 1 \<and> length (inventory (consume_components res p)) = 0)"
  by code_simp

subsection \<open>Narration and the impact\<close>

lemma randint_5_20: "randint 5 20 g = (k, g1) \<Longrightarrow> 0 \<le> k"
  using randint_range [of 5 20 g] by simp

lemma discover_items_frame:
  "(discover_items xs gm g = Inr (gm1, g1) \<or> discover_items xs gm g = Inl (e, gm1, g1))
   \<Longrightarrow> game_player gm1 = (game_player gm)\<lparr>gold := gold (game_player gm1)\<rparr>
       \<and> gold (game_player gm) \<le> gold (game_player gm1)"
proof (induction xs gm g rule: discover_items.induct)
  case (1 gm g)
  then show ?case by auto
next
  case (2 x xs gm g)
  show ?case
  proof (cases x)
    case (JStr nm)
    show ?thesis
    proof (cases "any_keyword_in currency_keywords (lower nm)")
      case True
      obtain k g2 where r: "randint 5 20 g = (k, g2)" by (cases "randint 5 20 g")
      let ?gm = "gm\<lparr>game_player := (game_player gm)\<lparr>gold := gold (game_player gm) + k\<rparr>\<rparr>"
      have run: "discover_items (x # xs) gm g = discover_items xs ?gm g2"
        using JStr True r by simp
      have "game_player gm1 = (game_player ?gm)\<lparr>gold := gold (game_player gm1)\<rparr>
            \<and> gold (game_player ?gm) \<le> gold (game_player gm1)"
        using "2.IH"(1) [OF JStr True r [symmetric] refl] "2.prems" run by simp
      moreover have "0 \<le> k" using r by (rule randint_5_20)
      ultimately show ?thesis by simp
    next
      case False
      then show ?thesis using "2.IH"(2) [OF JStr False] "2.prems" JStr by simp
    qed
  qed (use "2.prems" in auto)
qed

lemma discover_objects_frame:
  "(discover_objects xs gm g = Inr (gm1, g1) \<or> discover_objects xs gm g = Inl (e, gm1, g1))
   \<Longrightarrow> game_player gm1 = game_player gm"
proof (induction xs gm g rule: discover_objects.induct)
  case (1 gm g)
  then show ?case by auto
next
  case (2 x xs gm g)
  show ?case
  proof (cases x)
    case (JStr nm)
    then show ?thesis using "2.IH" [OF JStr] "2.prems" by (simp split: if_splits)
  qed (use "2.prems" in auto)
qed

lemma process_discoveries_frame:
  assumes "process_discoveries nr gm g = Inr (gm1, g1)
           \<or> process_discoveries nr gm g = Inl (e, gm1, g1)"
  shows "game_player gm1 = (game_player gm)\<lparr>gold := gold (game_player gm1)\<rparr>
         \<and> gold (game_player gm) \<le> gold (game_player gm1)"
proof -
  define gm0 where "gm0 = (if nr_discovered_gold nr > 0
                 then gm\<lparr>game_player := (game_player gm)\<lparr>gold :=
                              gold (game_player gm) + nr_discovered_gold nr\<rparr>\<rparr>
                 else gm)"
  have f0: "game_player gm0 = (game_player gm)\<lparr>gold := gold (game_player gm0)\<rparr>
            \<and> gold (game_player gm) \<le> gold (game_player gm0)"
    by (simp add: gm0_def)
  define items where "items = (if truthy (nr_discovered_items nr)
               then (case iterate (nr_discovered_items nr) of
                       Inl e \<Rightarrow> Inl (e, gm0, g)
                     | Inr xs \<Rightarrow> discover_items xs gm0 g)
               else Inr (gm0, g))"
  have f1: "game_player gm2 = (game_player gm0)\<lparr>gold := gold (game_player gm2)\<rparr>
            \<and> gold (game_player gm0) \<le> gold (game_player gm2)"
    if "items = Inr (gm2, g2) \<or> items = Inl (e2, gm2, g2)" for gm2 g2 e2
    using that discover_items_frame [of _ gm0 g gm2 g2 e2]
    by (auto simp: items_def split: if_splits sum.splits)
  have pd: "process_discoveries nr gm g =
              (case items of
                 Inl e \<Rightarrow> Inl e
               | Inr (gm2, g2) \<Rightarrow>
                   (if truthy (nr_discovered_objects nr)
                    then (case iterate (nr_discovered_objects nr) of
                            Inl e \<Rightarrow> Inl (e, gm2, g2)
                          | Inr xs \<Rightarrow> discover_objects xs gm2 g2)
                    else Inr (gm2, g2)))"
    unfolding process_discoveries_def Let_def items_def gm0_def by (rule refl)
  have f2: "game_player gm1 = (game_player gm0)\<lparr>gold := gold (game_player gm1)\<rparr>
            \<and> gold (game_player gm0) \<le> gold (game_player gm1)"
  proof (cases items)
    case (Inl err)
    then show ?thesis using assms pd f1 [of gm1 g1 e] by auto
  next
    case (Inr ok)
    obtain gm2 g2 where ok: "ok = (gm2, g2)" by (cases ok)
    have "game_player gm1 = game_player gm2"
      using assms pd Inr ok discover_objects_frame [of _ gm2 g2 gm1 g1 e]
      by (auto split: if_splits sum.splits)
    then show ?thesis using f1 [of gm2 g2] Inr ok by simp
  qed
  from f0 f2 show ?thesis
    by (metis (no_types, lifting) order_trans player.update_convs(8) player.surjective)
qed

lemma check_level_up_gold:
  "check_level_up (p\<lparr>gold := k\<rparr>) = (check_level_up p)\<lparr>gold := k\<rparr>"
  by (simp add: check_level_up_def Let_def)

lemma apply_impact_gold:
  "apply_impact imp (p\<lparr>gold := gold p + d\<rparr>)
     = (apply_impact imp p)\<lparr>gold := gold (apply_impact imp p) + d\<rparr>"
  by (cases "impact_item imp")
     (simp_all add: apply_impact_def check_level_up_def Let_def)

text \<open>
  Claim C2.  With the narrator in use (the service is available and the action is no NPC
  conversation), the block that applies the precomputed impact is reached only when the
  processing of the narration result completes.  If it completes, the player that results
  is the player before the action with the impact applied, plus the gold the narration
  discovered: here the impact is applied exactly and the narration only adds.  If it
  raises, \<open>execute_free_action\<close> is left with the game as it was at the raise, where the
  player differs from the player before the action in gold at most: the impact of the
  successful action is not applied.  So the applied impact does depend on the content the
  narration backend returns.
\<close>

theorem narration_decides_impact:
  assumes "\<not> is_npc_conversation action (game_room gm)" and "ai_is_available"
  shows "(case process_discoveries nr gm g of
            Inl (e, gm1, g1) \<Rightarrow>
              narrate_and_apply_impact action res ai_is_available nr gm g = Inl (e, gm1, g1)
              \<and> game_player gm1 = (game_player gm)\<lparr>gold := gold (game_player gm1)\<rparr>
          | Inr (gm1, g1) \<Rightarrow>
              narrate_and_apply_impact action res ai_is_available nr gm g
                = Inr (gm1\<lparr>game_player :=
                              (apply_impact (res_impact res) (game_player gm))
                                \<lparr>gold := gold (apply_impact (res_impact res) (game_player gm))
                                          + (gold (game_player gm1) - gold (game_player gm))\<rparr>\<rparr>,
                       g1)
              \<and> gold (game_player gm) \<le> gold (game_player gm1))"
proof (cases "process_discoveries nr gm g")
  case (Inl err)
  obtain e gm1 g1 where err: "err = (e, gm1, g1)" by (cases err)
  have "game_player gm1 = (game_player gm)\<lparr>gold := gold (game_player gm1)\<rparr>"
    using process_discoveries_frame [of nr gm g gm1 g1 e] Inl err by simp
  then show ?thesis
    using Inl err assms by (simp add: narrate_and_apply_impact_def)
next
  case (Inr ok)
  obtain gm1 g1 where ok: "ok = (gm1, g1)" by (cases ok)
  have fr: "game_player gm1 = (game_player gm)\<lparr>gold := gold (game_player gm1)\<rparr>"
    and le: "gold (game_player gm) \<le> gold (game_player gm1)"
    using process_discoveries_frame [of nr gm g gm1 g1 undefined] Inr ok by simp_all
  have "game_player gm1 = (game_player gm)\<lparr>gold := gold (game_player gm)
                            + (gold (game_player gm1) - gold (game_player gm))\<rparr>"
    using fr by simp
  then have "apply_impact (res_impact res) (game_player gm1)
          = (apply_impact (res_impact res) (game_player gm))
              \<lparr>gold := gold (apply_impact (res_impact res) (game_player gm))
                        + (gold (game_player gm1) - gold (game_player gm))\<rparr>"
    using apply_impact_gold [of "res_impact res" "game_player gm"
                                "gold (game_player gm1) - gold (game_player gm)"]
    by simp
  then show ?thesis
    using Inr ok assms le by (simp add: narrate_and_apply_impact_def)
qed

theorem narration_decides_impact_witness:
  "narrate_and_apply_impact ''search the shelf'' found_map True (narrate_parsed narration_objects)
     (ex_game (ex_player []) (ex_room None [] [])) (const_rng 0)
   = Inl (AttributeError ''lower'', ex_game (ex_player []) (ex_room None [] []), const_rng 0)
   \<and> res_success found_map \<and> impact_xp (res_impact found_map) = 10
   \<and> xp (game_player (ex_game (ex_player []) (ex_room None [] []))) = 0
   \<and> (case narrate_and_apply_impact ''search the shelf'' found_map True
              (narrate_parsed narration_names)
              (ex_game (ex_player []) (ex_room None [] [])) (const_rng 0) of
         Inl err \<Rightarrow> False
       | Inr (gm1, g1) \<Rightarrow> xp (game_player gm1) = 10)"
proof -
  let ?gm = "ex_game (ex_player []) (ex_room None [] [])"
  let ?a = "''search the shelf''"
  have npc: "\<not> is_npc_conversation ?a (game_room ?gm)"
    by (simp add: is_npc_conversation_def ex_game_def ex_room_def)
  have objs: "narrate_parsed narration_objects =
                \<lparr>nr_narrative = JStr ''Du findest eine alte Karte.'', nr_discovered_gold = 0,
                 nr_discovered_items = JList [JObject [(''name'', JStr ''Alte Karte'')]],
                 nr_discovered_objects = JList []\<rparr>"
    by code_simp
  have pd_objs: "process_discoveries (narrate_parsed narration_objects) ?gm (const_rng 0)
                   = Inl (AttributeError ''lower'', ?gm, const_rng 0)"
    unfolding objs by (simp add: process_discoveries_def)
  have 1: "narrate_and_apply_impact ?a found_map True (narrate_parsed narration_objects)
             ?gm (const_rng 0) = Inl (AttributeError ''lower'', ?gm, const_rng 0)"
    using narration_decides_impact
            [where action = ?a and gm = ?gm and ai_is_available = True
                 and nr = "narrate_parsed narration_objects" and g = "const_rng 0"
                 and res = found_map]
          npc pd_objs
    by simp
  have 2: "res_success found_map \<and> impact_xp (res_impact found_map) = 10
           \<and> xp (game_player ?gm) = 0"
    by code_simp
  have "case process_discoveries (narrate_parsed narration_names) ?gm (const_rng 0) of
          Inl err \<Rightarrow> False | Inr ok \<Rightarrow> True"
    by code_simp
  then obtain gm1 g1 where
    pd_names: "process_discoveries (narrate_parsed narration_names) ?gm (const_rng 0)
                 = Inr (gm1, g1)"
    by (cases "process_discoveries (narrate_parsed narration_names) ?gm (const_rng 0)") auto
  have xp10: "xp (apply_impact (res_impact found_map) (game_player ?gm)) = 10"
    by code_simp
  have 3: "case narrate_and_apply_impact ?a found_map True (narrate_parsed narration_names)
                  ?gm (const_rng 0) of
             Inl err \<Rightarrow> False
           | Inr (gm1, g1) \<Rightarrow> xp (game_player gm1) = 10"
    using narration_decides_impact
            [where action = ?a and gm = ?gm and ai_is_available = True
                 and nr = "narrate_parsed narration_names" and g = "const_rng 0"
                 and res = found_map]
          npc pd_names xp10
    by simp
  from 1 2 3 show ?thesis by simp
qed

end
